theory Spec2Isabelle
  imports Main "HOL-Library.Multiset"
begin

section \<open>Mood journal backend: request handlers over a relational store\<close>

text \<open>
  The repository holds two near-duplicate variants of one Express service:
  variant A (\<^verbatim>\<open>src/app.js\<close>) and variant B (\<^verbatim>\<open>src/unnamed/part_000\<close>). Each handler
  is embedded as a function from the request fields and the store to a response and the
  updated store. Where the two files differ, a definition carries the suffix \<open>_A\<close> or
  \<open>_B\<close>; where they agree word for word there is one definition.

  Conventions of the embedding:
  \<^item> A request field is a \<open>string option\<close>: \<open>None\<close> is an absent field (JavaScript
    \<^verbatim>\<open>undefined\<close>, or JSON \<^verbatim>\<open>null\<close>), \<open>Some s\<close> a string. Fields that carry a
    number, a nested object or a repeated query parameter are outside the embedding.
  \<^item> A \<open>char\<close> stands for the UTF-16 code unit of the same number, so strings range over
    Latin-1; code units above 255 are outside the embedding.
  \<^item> JavaScript numbers that the handlers compute are integers; \<open>NaN\<close> is \<open>None\<close>.
  \<^item> PostgreSQL is not part of the repository. Each statement the handlers send is
    given by its text, its parameters and a function on the store that states what the
    statement means. The tables are lists of rows in physical order.
\<close>

subsection \<open>JavaScript strings\<close>

text \<open>
  White space and line terminators of ECMAScript within Latin-1: TAB, LF, VT, FF, CR,
  SP and NBSP. \<^verbatim>\<open>String.prototype.trim\<close> and \<^verbatim>\<open>parseInt\<close> both strip this set.
\<close>

definition isWhiteSpace :: "char \<Rightarrow> bool" where
  "isWhiteSpace c \<longleftrightarrow>
     c = CHR 0x09 \<or> c = CHR 0x0A \<or> c = CHR 0x0B \<or> c = CHR 0x0C \<or> c = CHR 0x0D \<or>
     c = CHR 0x20 \<or> c = CHR 0xA0"

definition trim :: "string \<Rightarrow> string" where
  "trim s = rev (dropWhile isWhiteSpace (rev (dropWhile isWhiteSpace s)))"

text \<open>
  \<^verbatim>\<open>s.split(sep)\<close> for a one-character separator: the pieces between the separators,
  empty pieces included; the empty string splits into one empty piece.
\<close>

fun js_split :: "char \<Rightarrow> string \<Rightarrow> string list" where
  "js_split sep [] = [[]]"
| "js_split sep (c # cs) =
     (if c = sep then [] # js_split sep cs
      else (case js_split sep cs of [] \<Rightarrow> [[c]] | p # ps \<Rightarrow> (c # p) # ps))"

text \<open>\<^verbatim>\<open>xs.join(sep)\<close>, used to state what \<open>js_split\<close> computes.\<close>

fun js_join :: "char \<Rightarrow> string list \<Rightarrow> string" where
  "js_join sep [] = []"
| "js_join sep [p] = p"
| "js_join sep (p # q # ps) = p @ sep # js_join sep (q # ps)"

text \<open>\<^verbatim>\<open>String.prototype.toLowerCase\<close> on Latin-1: A to Z, and U+00C0 to U+00DE but U+00D7.\<close>

definition lower_char :: "char \<Rightarrow> char" where
  "lower_char c =
     (let n = (of_char c :: nat) in
      if (65 \<le> n \<and> n \<le> 90) \<or> (192 \<le> n \<and> n \<le> 222 \<and> n \<noteq> 215) then char_of (n + 32) else c)"

definition toLowerCase :: "string \<Rightarrow> string" where
  "toLowerCase s = map lower_char s"

text \<open>
  The value of a digit in radix \<open>R\<close> (\<open>R\<close> is 10 or 16 here), \<open>None\<close> when the code unit
  is not a digit of that radix.
\<close>

definition digit_of :: "nat \<Rightarrow> char \<Rightarrow> nat option" where
  "digit_of R c =
     (let n = (of_char c :: nat);
          v = (if 48 \<le> n \<and> n \<le> 57 then Some (n - 48)
               else if 97 \<le> n \<and> n \<le> 122 then Some (n - 87)
               else if 65 \<le> n \<and> n \<le> 90 then Some (n - 55)
               else None)
      in case v of None \<Rightarrow> None | Some d \<Rightarrow> if d < R then Some d else None)"

text \<open>
  \<^verbatim>\<open>parseInt(string)\<close> with no radix, after ECMA-262: strip leading white space, read a
  sign, read a \<^verbatim>\<open>0x\<close>/\<^verbatim>\<open>0X\<close> prefix (radix 16, else 10), take the longest prefix of
  digits; no digit gives \<open>NaN\<close>. The result here is the exact integer. JavaScript rounds
  it to a double; rounding is monotone and exact on 0 and 365, so the comparisons the
  handler makes on the result are the same, and a result that passes them is exact.
\<close>

definition parseInt :: "string \<Rightarrow> int option" where
  "parseInt inputString =
     (let S = dropWhile isWhiteSpace inputString;
          sign = (if S \<noteq> [] \<and> hd S = CHR ''-'' then - 1 else 1 :: int);
          S1 = (if S \<noteq> [] \<and> (hd S = CHR ''+'' \<or> hd S = CHR ''-'') then tl S else S);
          hex = (take 2 S1 = ''0x'' \<or> take 2 S1 = ''0X'');
          R = (if hex then 16 else 10 :: nat);
          S2 = (if hex then drop 2 S1 else S1);
          Z = takeWhile (\<lambda>c. digit_of R c \<noteq> None) S2
      in if Z = [] then None
         else Some (sign * int (foldl (\<lambda>a c. a * R + the (digit_of R c)) 0 Z)))"

text \<open>
  The decimal rendering of an integer, as a template literal renders a number that is an
  integer below \<open>10\<^sup>2\<^sup>1\<close> in size.
\<close>

definition digit_char :: "nat \<Rightarrow> char" where
  "digit_char d = ''0123456789'' ! d"

fun dec_nat :: "nat \<Rightarrow> string" where
  "dec_nat n = (if n < 10 then [digit_char n] else dec_nat (n div 10) @ [digit_char (n mod 10)])"

declare dec_nat.simps [simp del]

definition js_number_string :: "int \<Rightarrow> string" where
  "js_number_string n = (if n < 0 then CHR ''-'' # dec_nat (nat (- n)) else dec_nat (nat n))"

text \<open>\<^verbatim>\<open>!x\<close> is false on a field exactly when the field is present and not the empty string.\<close>

fun truthy :: "string option \<Rightarrow> bool" where
  "truthy None = False"
| "truthy (Some s) = (s \<noteq> [])"

subsection \<open>Objects created by an object literal\<close>

text \<open>
  \<^verbatim>\<open>{}\<close> and the table literals of the quotes handlers inherit from
  \<^verbatim>\<open>Object.prototype\<close>, and \<^verbatim>\<open>obj[key]\<close> reads an inherited member when the object has
  no own property of that name. The values that occur are numbers, strings, the inherited
  functions and \<^verbatim>\<open>Object.prototype\<close> itself (read through \<^verbatim>\<open>__proto__\<close>).
\<close>

datatype jsvalue =
    JUndefined
  | JNumber nat
  | JString string
  | JFunction string
  | JObjectPrototype

definition prototype_functions :: "(string \<times> string) list" where
  "prototype_functions =
     [(''constructor'', ''Object''),
      (''__defineGetter__'', ''__defineGetter__''),
      (''__defineSetter__'', ''__defineSetter__''),
      (''hasOwnProperty'', ''hasOwnProperty''),
      (''__lookupGetter__'', ''__lookupGetter__''),
      (''__lookupSetter__'', ''__lookupSetter__''),
      (''isPrototypeOf'', ''isPrototypeOf''),
      (''propertyIsEnumerable'', ''propertyIsEnumerable''),
      (''toString'', ''toString''),
      (''valueOf'', ''valueOf''),
      (''toLocaleString'', ''toLocaleString'')]"

definition prototype_get :: "string \<Rightarrow> jsvalue" where
  "prototype_get k =
     (if k = ''__proto__'' then JObjectPrototype
      else case map_of prototype_functions k of Some f \<Rightarrow> JFunction f | None \<Rightarrow> JUndefined)"

definition get_property :: "(string \<rightharpoonup> jsvalue) \<Rightarrow> string \<Rightarrow> jsvalue" where
  "get_property obj k = (case obj k of Some v \<Rightarrow> v | None \<Rightarrow> prototype_get k)"

text \<open>
  \<^verbatim>\<open>obj[key] = v\<close> for a number or string \<open>v\<close>: the \<^verbatim>\<open>__proto__\<close> setter ignores a value
  that is neither an object nor null; any other key becomes an own property.
\<close>

definition set_property :: "(string \<rightharpoonup> jsvalue) \<Rightarrow> string \<Rightarrow> jsvalue \<Rightarrow> (string \<rightharpoonup> jsvalue)" where
  "set_property obj k v = (if k = ''__proto__'' then obj else obj(k \<mapsto> v))"

text \<open>String conversion, as string concatenation and template literals apply it (V8).\<close>

fun to_text :: "jsvalue \<Rightarrow> string" where
  "to_text JUndefined = ''undefined''"
| "to_text (JNumber n) = dec_nat n"
| "to_text (JString s) = s"
| "to_text (JFunction f) = ''function '' @ f @ ''() { [native code] }''"
| "to_text JObjectPrototype = ''[object Object]''"

text \<open>\<^verbatim>\<open>(v || 0) + 1\<close>: addition on a number, concatenation with \<^verbatim>\<open>"1"\<close> on anything else truthy.\<close>

fun or_zero_plus_one :: "jsvalue \<Rightarrow> jsvalue" where
  "or_zero_plus_one JUndefined = JNumber 1"
| "or_zero_plus_one (JNumber n) = JNumber (n + 1)"
| "or_zero_plus_one (JString s) = (if s = [] then JNumber 1 else JString (s @ ''1''))"
| "or_zero_plus_one v = JString (to_text v @ ''1'')"

subsection \<open>The store\<close>

record user_row =
  user_email :: string
  user_password :: string

text \<open>The \<open>triggers\<close> column is an array of text and may be null (the history handler reads
  \<^verbatim>\<open>entry.triggers || []\<close>); time stamps are microseconds.\<close>

record mood_row =
  mood_email :: string
  mood_mood :: string
  mood_triggers :: "string list option"
  mood_created_at :: int

datatype param = PText string | PArray "string list"

text \<open>
  \<open>users\<close> and \<open>user1\<close> are the two account tables that the statements name, \<open>moods\<close> the
  entry table. \<open>clock\<close> is what \<^verbatim>\<open>NOW()\<close> returns. \<open>queries\<close> records every statement
  handed to \<^verbatim>\<open>pool.query\<close>, in order; \<open>faults\<close> says which of them (by position) the
  store fails to run, so that \<^verbatim>\<open>pool.query\<close> rejects.
\<close>

record store =
  users :: "user_row list"
  user1 :: "user_row list"
  moods :: "mood_row list"
  clock :: int
  faults :: "nat \<Rightarrow> bool"
  queries :: "(string \<times> param list) list"

text \<open>\<^verbatim>\<open>await pool.query(text, params)\<close>: \<open>Inl ()\<close> is the rejection that the handler's
  \<^verbatim>\<open>catch\<close> receives; \<open>run\<close> is the meaning of the statement.\<close>

definition pool_query ::
  "string \<Rightarrow> param list \<Rightarrow> (store \<Rightarrow> 'r \<times> store) \<Rightarrow> store \<Rightarrow> (unit + 'r) \<times> store" where
  "pool_query text params run db =
     (let db1 = db\<lparr>queries := queries db @ [(text, params)]\<rparr>
      in if faults db (length (queries db)) then (Inl (), db1)
         else (case run db1 of (r, db2) \<Rightarrow> (Inr r, db2)))"

text \<open>\<^verbatim>\<open>SELECT * FROM t WHERE email = $1\<close>\<close>

definition select_by_email :: "(store \<Rightarrow> user_row list) \<Rightarrow> string \<Rightarrow> store \<Rightarrow> user_row list \<times> store" where
  "select_by_email t e db = (filter (\<lambda>r. user_email r = e) (t db), db)"

text \<open>\<^verbatim>\<open>INSERT INTO users (email, password) VALUES ($1, $2)\<close>, and the same into \<open>user1\<close>\<close>

definition insert_users :: "string \<Rightarrow> string \<Rightarrow> store \<Rightarrow> unit \<times> store" where
  "insert_users e p db = ((), db\<lparr>users := users db @ [\<lparr>user_email = e, user_password = p\<rparr>]\<rparr>)"

definition insert_user1 :: "string \<Rightarrow> string \<Rightarrow> store \<Rightarrow> unit \<times> store" where
  "insert_user1 e p db = ((), db\<lparr>user1 := user1 db @ [\<lparr>user_email = e, user_password = p\<rparr>]\<rparr>)"

text \<open>\<^verbatim>\<open>INSERT INTO moods (email, mood, triggers, created_at) VALUES ($1, $2, $3, NOW())\<close>\<close>

definition insert_moods :: "string \<Rightarrow> string \<Rightarrow> string list \<Rightarrow> store \<Rightarrow> unit \<times> store" where
  "insert_moods e m ts db =
     ((), db\<lparr>moods := moods db @
            [\<lparr>mood_email = e, mood_mood = m, mood_triggers = Some ts, mood_created_at = clock db\<rparr>]\<rparr>)"

text \<open>A row of \<^verbatim>\<open>SELECT mood, triggers, created_at\<close>: the owner's email is not selected.\<close>

record entry =
  entry_mood :: string
  entry_triggers :: "string list option"
  entry_created_at :: int

definition project :: "mood_row \<Rightarrow> entry" where
  "project m =
     \<lparr>entry_mood = mood_mood m, entry_triggers = mood_triggers m,
      entry_created_at = mood_created_at m\<rparr>"

text \<open>\<^verbatim>\<open>NOW() - INTERVAL 'k days'\<close>, a day being 24 hours.\<close>

definition days_before :: "int \<Rightarrow> int \<Rightarrow> int" where
  "days_before t k = t - k * 86400000000"

text \<open>\<^verbatim>\<open>triggers && $2::text[]\<close>: the arrays have an element in common; null on a null
  array, which a \<^verbatim>\<open>WHERE\<close> clause treats as false.\<close>

definition overlaps :: "string list option \<Rightarrow> string list \<Rightarrow> bool" where
  "overlaps col arr = (case col of None \<Rightarrow> False | Some ts \<Rightarrow> list_ex (\<lambda>t. t \<in> set arr) ts)"

text \<open>
  The history statement. \<open>arr\<close> is \<open>Some\<close> of the second parameter when the text has the
  \<^verbatim>\<open>AND triggers && $2::text[]\<close> clause, \<open>None\<close> when it has not. \<^verbatim>\<open>ORDER BY created_at DESC\<close>
  leaves the order of equal time stamps open; the stable sort picks one such order.
\<close>

definition matches :: "string \<Rightarrow> int \<Rightarrow> string list option \<Rightarrow> int \<Rightarrow> mood_row \<Rightarrow> bool" where
  "matches e k arr now m \<longleftrightarrow>
     mood_email m = e \<and> mood_created_at m \<ge> days_before now k \<and>
     (case arr of None \<Rightarrow> True | Some ts \<Rightarrow> overlaps (mood_triggers m) ts)"

definition select_history :: "string \<Rightarrow> int \<Rightarrow> string list option \<Rightarrow> store \<Rightarrow> entry list \<times> store" where
  "select_history e k arr db =
     (map project (sort_key (\<lambda>m. - mood_created_at m) (filter (matches e k arr (clock db)) (moods db))), db)"

subsection \<open>Responses\<close>

text \<open>A quote object is the list of its keys and values.\<close>

type_synonym quote = "(string \<times> nat list) list"

datatype body =
    Message string
  | MoodHistory (body_history: "entry list") (body_counts: "string \<rightharpoonup> jsvalue")
  | QuoteList (body_quotes: "quote list")
  | Member jsvalue

record response =
  status :: nat
  json :: body

subsection \<open>Accounts\<close>

text \<open>\<^verbatim>\<open>POST /api/auth/signup\<close>, variant A.\<close>

definition signup_A :: "string option \<Rightarrow> string option \<Rightarrow> store \<Rightarrow> response \<times> store" where
  "signup_A email password db =
     (if \<not> truthy email \<or> \<not> truthy password
      then (\<lparr>status = 400, json = Message ''Email and password required''\<rparr>, db)
      else
        (case pool_query ''SELECT * FROM users WHERE email = $1'' [PText (the email)]
                (select_by_email users (the email)) db of
           (Inl err, db1) \<Rightarrow> (\<lparr>status = 500, json = Message ''Server error''\<rparr>, db1)
         | (Inr existingUser, db1) \<Rightarrow>
             if length existingUser > 0
             then (\<lparr>status = 400, json = Message ''User already exists''\<rparr>, db1)
             else
               (case pool_query ''INSERT INTO users (email, password) VALUES ($1, $2)''
                       [PText (the email), PText (the password)]
                       (insert_users (the email) (the password)) db1 of
                  (Inl err, db2) \<Rightarrow> (\<lparr>status = 500, json = Message ''Server error''\<rparr>, db2)
                | (Inr ok, db2) \<Rightarrow>
                    (\<lparr>status = 201, json = Message ''User registered successfully''\<rparr>, db2))))"

text \<open>\<^verbatim>\<open>POST /api/auth/signup\<close>, variant B: the check reads \<open>users\<close>, the insert writes \<open>user1\<close>.\<close>

definition signup_B :: "string option \<Rightarrow> string option \<Rightarrow> store \<Rightarrow> response \<times> store" where
  "signup_B email password db =
     (if \<not> truthy email \<or> \<not> truthy password
      then (\<lparr>status = 400, json = Message ''Email and password required''\<rparr>, db)
      else
        (case pool_query ''SELECT * FROM users WHERE email = $1'' [PText (the email)]
                (select_by_email users (the email)) db of
           (Inl err, db1) \<Rightarrow> (\<lparr>status = 500, json = Message ''Server error''\<rparr>, db1)
         | (Inr existingUser, db1) \<Rightarrow>
             if length existingUser > 0
             then (\<lparr>status = 400, json = Message ''User already exists''\<rparr>, db1)
             else
               (case pool_query ''INSERT INTO user1 (email, password) VALUES ($1, $2)''
                       [PText (the email), PText (the password)]
                       (insert_user1 (the email) (the password)) db1 of
                  (Inl err, db2) \<Rightarrow> (\<lparr>status = 500, json = Message ''Server error''\<rparr>, db2)
                | (Inr ok, db2) \<Rightarrow>
                    (\<lparr>status = 201, json = Message ''User registered successfully''\<rparr>, db2))))"

text \<open>
  \<^verbatim>\<open>POST /api/auth/login\<close>. The two variants differ in the table only (\<open>users\<close> in A,
  \<open>user1\<close> in B), which is the first argument: \<open>login_A\<close> and \<open>login_B\<close> below.
  \<^verbatim>\<open>userRes.rows[0]\<close> is read after the length check, so the list is not empty there.
\<close>

definition login :: "(store \<Rightarrow> user_row list) \<Rightarrow> string \<Rightarrow> string option \<Rightarrow> string option \<Rightarrow> store \<Rightarrow> response \<times> store" where
  "login t text email password db =
     (if \<not> truthy email \<or> \<not> truthy password
      then (\<lparr>status = 400, json = Message ''Email and password required''\<rparr>, db)
      else
        (case pool_query text [PText (the email)] (select_by_email t (the email)) db of
           (Inl err, db1) \<Rightarrow> (\<lparr>status = 500, json = Message ''Server error''\<rparr>, db1)
         | (Inr [], db1) \<Rightarrow>
             (\<lparr>status = 400, json = Message ''User not found. Please sign up first.''\<rparr>, db1)
         | (Inr (user # rest), db1) \<Rightarrow>
             if user_password user \<noteq> the password
             then (\<lparr>status = 401, json = Message ''Incorrect password''\<rparr>, db1)
             else (\<lparr>status = 200, json = Message ''Login successful''\<rparr>, db1)))"

definition login_A :: "string option \<Rightarrow> string option \<Rightarrow> store \<Rightarrow> response \<times> store" where
  "login_A = login users ''SELECT * FROM users WHERE email = $1''"

definition login_B :: "string option \<Rightarrow> string option \<Rightarrow> store \<Rightarrow> response \<times> store" where
  "login_B = login user1 ''SELECT * FROM user1 WHERE email = $1''"

subsection \<open>Saving a mood\<close>

text \<open>
  \<^verbatim>\<open>POST /api/mood\<close>. The \<open>triggers\<close> field of the body is an array of strings or absent;
  \<^verbatim>\<open>triggers || []\<close> keeps an array, the empty one too. The variants differ in the message
  of the 201 response only: \<open>save_mood_A\<close> and \<open>save_mood_B\<close>.
\<close>

definition save_mood :: "string \<Rightarrow> string option \<Rightarrow> string option \<Rightarrow> string list option \<Rightarrow> store \<Rightarrow> response \<times> store" where
  "save_mood msg email mood triggers db =
     (if \<not> truthy email \<or> \<not> truthy mood
      then (\<lparr>status = 400, json = Message ''Email and mood are required''\<rparr>, db)
      else
        (case pool_query
                ''INSERT INTO moods (email, mood, triggers, created_at) VALUES ($1, $2, $3, NOW())''
                [PText (the email), PText (the mood),
                 PArray (case triggers of None \<Rightarrow> [] | Some ts \<Rightarrow> ts)]
                (insert_moods (the email) (the mood) (case triggers of None \<Rightarrow> [] | Some ts \<Rightarrow> ts))
                db of
           (Inl err, db1) \<Rightarrow> (\<lparr>status = 500, json = Message ''Error saving mood''\<rparr>, db1)
         | (Inr ok, db1) \<Rightarrow> (\<lparr>status = 201, json = Message msg\<rparr>, db1)))"

definition save_mood_A :: "string option \<Rightarrow> string option \<Rightarrow> string list option \<Rightarrow> store \<Rightarrow> response \<times> store" where
  "save_mood_A = save_mood ''Mood saved successfully''"

definition save_mood_B :: "string option \<Rightarrow> string option \<Rightarrow> string list option \<Rightarrow> store \<Rightarrow> response \<times> store" where
  "save_mood_B = save_mood []"

subsection \<open>Mood history\<close>

text \<open>\<^verbatim>\<open>GET /api/mood/history\<close>, the same text in both variants.\<close>

definition triggersArray :: "string option \<Rightarrow> string list" where
  "triggersArray triggers =
     (if truthy triggers
      then filter (\<lambda>t. length t > 0) (map trim (js_split CHR '','' (the triggers)))
      else [])"

definition queryText :: "int \<Rightarrow> string list \<Rightarrow> string" where
  "queryText daysInt arr =
     [CHR 0x0A] @ ''      SELECT mood, triggers, created_at'' @
     [CHR 0x0A] @ ''      FROM moods'' @
     [CHR 0x0A] @ ''      WHERE email = $1'' @
     [CHR 0x0A] @ ''        AND created_at >= NOW() - INTERVAL '' @
     [CHR 0x27] @ js_number_string daysInt @ '' days'' @ [CHR 0x27] @
     [CHR 0x0A] @ ''    '' @
     (if length arr > 0 then '' AND triggers && $2::text[]'' else []) @
     '' ORDER BY created_at DESC''"

definition queryParams :: "string \<Rightarrow> string list \<Rightarrow> param list" where
  "queryParams e arr = [PText e] @ (if length arr > 0 then [PArray arr] else [])"

text \<open>The frequency table: \<^verbatim>\<open>triggerCounts[trigger] = (triggerCounts[trigger] || 0) + 1\<close>
  for every trigger of every row, from \<^verbatim>\<open>{}\<close>.\<close>

definition count_trigger :: "(string \<rightharpoonup> jsvalue) \<Rightarrow> string \<Rightarrow> (string \<rightharpoonup> jsvalue)" where
  "count_trigger tc trigger = set_property tc trigger (or_zero_plus_one (get_property tc trigger))"

definition triggers_or_empty :: "entry \<Rightarrow> string list" where
  "triggers_or_empty e = (case entry_triggers e of None \<Rightarrow> [] | Some ts \<Rightarrow> ts)"

definition triggerCounts :: "entry list \<Rightarrow> (string \<rightharpoonup> jsvalue)" where
  "triggerCounts moodHistory =
     foldl (\<lambda>tc e. foldl count_trigger tc (triggers_or_empty e)) Map.empty moodHistory"

definition invalid_days :: response where
  "invalid_days = \<lparr>status = 400, json = Message ''Invalid days parameter. Must be between 1 and 365.''\<rparr>"

definition history :: "string option \<Rightarrow> string option \<Rightarrow> string option \<Rightarrow> store \<Rightarrow> response \<times> store" where
  "history email days triggers db =
     (if \<not> truthy email \<or> \<not> truthy days
      then (\<lparr>status = 400, json = Message ''Missing email or days parameter''\<rparr>, db)
      else
        (case parseInt (the days) of
           None \<Rightarrow> (invalid_days, db)
         | Some daysInt \<Rightarrow>
             if daysInt \<le> 0 \<or> daysInt > 365 then (invalid_days, db)
             else
               (let arr = triggersArray triggers in
                case pool_query (queryText daysInt arr) (queryParams (the email) arr)
                       (select_history (the email) daysInt (if length arr > 0 then Some arr else None))
                       db of
                  (Inl err, db1) \<Rightarrow>
                    (\<lparr>status = 500, json = Message ''Server error while retrieving mood history''\<rparr>, db1)
                | (Inr moodHistory, db1) \<Rightarrow>
                    (\<lparr>status = 200, json = MoodHistory moodHistory (triggerCounts moodHistory)\<rparr>, db1))))"

subsection \<open>Quotes\<close>

text \<open>
  The values of a quote object are sequences of UTF-16 code units, since the static
  table holds code units above 255. \<open>units\<close> embeds a Latin-1 string.
\<close>

definition units :: "string \<Rightarrow> nat list" where
  "units s = map of_char s"

text \<open>The object literal \<^verbatim>\<open>{ _id: i, content: c, author: a }\<close>.\<close>

definition quote_object :: "nat list \<Rightarrow> nat list \<Rightarrow> nat list \<Rightarrow> quote" where
  "quote_object i c a = [(''_id'', i), (''content'', c), (''author'', a)]"

text \<open>\<^verbatim>\<open>staticQuotes\<close> of variant B: the own properties of the table, in source order.\<close>

definition staticQuotes :: "(string \<times> quote list) list" where
  "staticQuotes =
     [
      (''happy'',
       [
        quote_object (units ''1'')
          (units ''Happiness depends upon ourselves.'')
          (units ''Aristotle''),
        quote_object (units ''2'')
          (units ''For every minute you are angry you lose sixty seconds of happiness.'')
          (units ''Ralph Waldo Emerson''),
        quote_object (units ''3'')
          (units ''The purpose of our lives is to be happy.'')
          (units ''Dalai Lama''),
        quote_object (units ''4'')
          (units ''Happiness is not something ready made. It comes from your own actions.'')
          (units ''Dalai Lama''),
        quote_object (units ''5'')
          (units ''Count your age by friends, not years. Count your life by smiles, not tears.'')
          (units ''John Lennon''),
        quote_object (units ''6'')
          (units ''Let us be grateful to the people who make us happy.'')
          (units ''Marcel Proust'')]),
      (''calm'',
       [
        quote_object (units ''25'')
          (units ''Peace comes from within. Do not seek it without.'')
          (units ''Buddha''),
        quote_object (units ''26'')
          (units ''The nearer a man comes to a calm mind, the closer he is to strength.'')
          (units ''Marcus Aurelius''),
        quote_object (units ''27'')
          (units ''Calm mind brings inner strength and self-confidence.'')
          (units ''Dalai Lama''),
        quote_object (units ''28'')
          (units ''Silence is a source of great strength.'')
          (units ''Lao Tzu''),
        quote_object (units ''29'')
          (units ''Serenity is not freedom from the storm, but peace amid the storm.'')
          (units ''Unknown''),
        quote_object (units ''30'')
          (units ''In the midst of movement and chaos, keep stillness inside of you.'')
          (units ''Deepak Chopra'')]),
      (''neutral'',
       [
        quote_object (units ''49'')
          (units ''Life is ten percent what happens to you and ninety percent how you respond to it.'')
          (units ''Charles R. Swindoll''),
        quote_object (units ''50'')
          (units ''Staying neutral doesn't mean you don't care'' @ [0x2014] @ units ''it means you'' @ [0x2019] @ units ''re letting balance lead.'')
          (units ''Unknown''),
        quote_object (units ''51'')
          (units ''Stillness speaks louder than noise.'')
          (units ''Eckhart Tolle''),
        quote_object (units ''52'')
          (units ''There is a calmness to a life lived in gratitude.'')
          (units ''Ralph H. Blum''),
        quote_object (units ''53'')
          (units ''Sometimes doing nothing is the best response.'')
          (units ''Unknown''),
        quote_object (units ''54'')
          (units ''Equanimity is the hallmark of spiritual maturity.'')
          (units ''Eknath Easwaran'')]),
      (''worried'',
       [
        quote_object (units ''31'')
          (units ''You don'' @ [0x2019] @ units ''t have to control your thoughts. You just have to stop letting them control you.'')
          (units ''Dan Millman''),
        quote_object (units ''32'')
          (units ''Nothing diminishes anxiety faster than action.'')
          (units ''Walter Anderson''),
        quote_object (units ''33'')
          (units ''Worrying doesn'' @ [0x2019] @ units ''t take away tomorrow'' @ [0x2019] @ units ''s troubles, it takes away today'' @ [0x2019] @ units ''s peace.'')
          (units ''Randy Armstrong''),
        quote_object (units ''34'')
          (units ''Anxiety does not empty tomorrow of its sorrows, but only empties today of its strength.'')
          (units ''Charles Spurgeon''),
        quote_object (units ''35'')
          (units ''You are stronger than you think.'')
          (units ''Unknown''),
        quote_object (units ''36'')
          (units ''Smile, breathe, and go slowly.'')
          (units ''Thich Nhat Hanh'')]),
      (''sad'',
       [
        quote_object (units ''7'')
          (units ''Tears come from the heart and not from the brain.'')
          (units ''Leonardo da Vinci''),
        quote_object (units ''8'')
          (units ''Sadness flies away on the wings of time.'')
          (units ''Jean de La Fontaine''),
        quote_object (units ''9'')
          (units ''Every human walks around with a certain kind of sadness.'')
          (units ''Unknown''),
        quote_object (units ''10'')
          (units ''You cannot protect yourself from sadness without protecting yourself from happiness.'')
          (units ''Jonathan Safran Foer''),
        quote_object (units ''11'')
          (units ''Crying is all right in its way while it lasts.'')
          (units ''C.S. Lewis''),
        quote_object (units ''12'')
          (units ''The good times of today are the sad thoughts of tomorrow.'')
          (units ''Bob Marley'')]),
      (''frustrated'',
       [
        quote_object (units ''55'')
          (units ''Frustration, although quite painful at times, is a very positive and essential part of success.'')
          (units ''Bo Bennett''),
        quote_object (units ''56'')
          (units ''Sometimes things have to go wrong before they can go right.'')
          (units ''Sherrilyn Kenyon''),
        quote_object (units ''57'')
          (units ''Out of difficulties grow miracles.'')
          (units ''Jean de La Bruy'' @ [0x00E8] @ units ''re''),
        quote_object (units ''58'')
          (units ''Frustration is a sign that you'' @ [0x2019] @ units ''re trying to make things better.'')
          (units ''Unknown''),
        quote_object (units ''59'')
          (units ''Patience is the antidote to frustration.'')
          (units ''Unknown''),
        quote_object (units ''60'')
          (units ''It'' @ [0x2019] @ units ''s okay to be frustrated. It'' @ [0x2019] @ units ''s not okay to give up.'')
          (units ''Unknown'')]),
      (''angry'',
       [
        quote_object (units ''13'')
          (units ''Speak when you are angry and you will make the best speech you will ever regret.'')
          (units ''Ambrose Bierce''),
        quote_object (units ''14'')
          (units ''Anger is a short madness.'')
          (units ''Horace''),
        quote_object (units ''15'')
          (units ''Never go to bed mad. Stay up and fight.'')
          (units ''Phyllis Diller''),
        quote_object (units ''16'')
          (units ''Anger is an acid that can do more harm to the vessel in which it is stored.'')
          (units ''Mark Twain''),
        quote_object (units ''17'')
          (units ''Holding on to anger is like drinking poison and expecting the other person to die.'')
          (units ''Buddha''),
        quote_object (units ''18'')
          (units ''For every minute you remain angry, you give up sixty seconds of peace of mind.'')
          (units ''Ralph Waldo Emerson'')]),
      (''loved'',
       [
        quote_object (units ''61'')
          (units ''Being deeply loved by someone gives you strength, while loving someone deeply gives you courage.'')
          (units ''Lao Tzu''),
        quote_object (units ''62'')
          (units ''Where there is love there is life.'')
          (units ''Mahatma Gandhi''),
        quote_object (units ''63'')
          (units ''Love cures people'' @ [0x2014] @ units ''both the ones who give it and the ones who receive it.'')
          (units ''Karl A. Menninger''),
        quote_object (units ''64'')
          (units ''To love and be loved is to feel the sun from both sides.'')
          (units ''David Viscott''),
        quote_object (units ''65'')
          (units ''The best thing to hold onto in life is each other.'')
          (units ''Audrey Hepburn''),
        quote_object (units ''66'')
          (units ''You are loved more than you will ever know.'')
          (units ''Unknown'')])]"

text \<open>
  \<^verbatim>\<open>GET /api/quotes\<close>, variant B. \<^verbatim>\<open>staticQuotes[key] || []\<close> yields the own array, an
  inherited member of \<^verbatim>\<open>Object.prototype\<close> (all of them truthy), or \<^verbatim>\<open>[]\<close>; the value goes
  to \<^verbatim>\<open>res.json\<close>, whose status is 200.
\<close>

definition quotes_B :: "string option \<Rightarrow> response" where
  "quotes_B mood =
     (if \<not> truthy mood then \<lparr>status = 400, json = Message ''Mood is required''\<rparr>
      else
        (case map_of staticQuotes (toLowerCase (the mood)) of
           Some quotes \<Rightarrow> \<lparr>status = 200, json = QuoteList quotes\<rparr>
         | None \<Rightarrow>
             (case prototype_get (toLowerCase (the mood)) of
                JUndefined \<Rightarrow> \<lparr>status = 200, json = QuoteList []\<rparr>
              | v \<Rightarrow> \<lparr>status = 200, json = Member v\<rparr>)))"

text \<open>
  \<^verbatim>\<open>GET /api/quotes\<close>, variant A. The quotes provider is a parameter: from the URL to
  \<open>Rejected\<close> (\<^verbatim>\<open>fetch\<close> or \<^verbatim>\<open>response.json()\<close> throws) or to \<open>Data r\<close>, where \<open>r\<close> is
  the \<^verbatim>\<open>results\<close> member of the parsed reply, \<open>None\<close> when it is missing. The provider's
  objects are taken in the representation of \<open>quote\<close>; the handler does not look inside.
\<close>

datatype provider_reply = Rejected | Data "quote list option"

definition moodKeywords :: "(string \<times> string) list" where
  "moodKeywords =
     [(''happy'', ''inspirational''),
      (''sad'', ''life''),
      (''angry'', ''anger''),
      (''relaxed'', ''peace'')]"

definition keyword_of :: "string \<Rightarrow> jsvalue" where
  "keyword_of k =
     (case map_of moodKeywords k of
        Some w \<Rightarrow> JString w
      | None \<Rightarrow> (case prototype_get k of JUndefined \<Rightarrow> JString ''motivational'' | v \<Rightarrow> v))"

definition quotes_url :: "jsvalue \<Rightarrow> string" where
  "quotes_url keyword = ''https://api.quotable.io/quotes?tags='' @ to_text keyword @ ''&limit=3''"

definition quotes_A :: "(string \<Rightarrow> provider_reply) \<Rightarrow> string option \<Rightarrow> response" where
  "quotes_A fetch mood =
     (if \<not> truthy mood then \<lparr>status = 400, json = Message ''Mood is required''\<rparr>
      else
        (case fetch (quotes_url (keyword_of (toLowerCase (the mood)))) of
           Rejected \<Rightarrow> \<lparr>status = 500, json = Message ''Failed to fetch quotes''\<rparr>
         | Data None \<Rightarrow> \<lparr>status = 404, json = Message ''No quotes found''\<rparr>
         | Data (Some results) \<Rightarrow>
             if length results = 0 then \<lparr>status = 404, json = Message ''No quotes found''\<rparr>
             else \<lparr>status = 200, json = QuoteList results\<rparr>))"

subsection \<open>Two readings of the frequency table\<close>

text \<open>
  Two readings of "how often a trigger appears" in a list of rows, for stating what the
  frequency table holds: the number of occurrences of the trigger in the rows' trigger
  arrays, and the number of rows whose array contains it. \<open>counted\<close> is the entry of the
  table for a count: no key for zero.
\<close>

definition occurrences :: "string \<Rightarrow> entry list \<Rightarrow> nat" where
  "occurrences T rows = sum_list (map (\<lambda>r. count_list (triggers_or_empty r) T) rows)"

definition entries_with :: "string \<Rightarrow> entry list \<Rightarrow> nat" where
  "entries_with T rows = length (filter (\<lambda>r. T \<in> set (triggers_or_empty r)) rows)"

definition counted :: "nat \<Rightarrow> jsvalue option" where
  "counted n = (if n = 0 then None else Some (JNumber n))"

subsection \<open>Stores and a provider for the examples\<close>

text \<open>An empty store that runs every statement.\<close>

definition store0 :: store where
  "store0 = \<lparr>users = [], user1 = [], moods = [], clock = 1000, faults = (\<lambda>n. False), queries = []\<rparr>"

text \<open>Three recent entries of two owners and an old entry without triggers.\<close>

definition store1 :: store where
  "store1 =
     \<lparr>users = [], user1 = [],
      moods =
        [\<lparr>mood_email = ''a@x.com'', mood_mood = ''happy'', mood_triggers = Some [''work'', ''sleep''],
          mood_created_at = 100\<rparr>,
         \<lparr>mood_email = ''a@x.com'', mood_mood = ''sad'', mood_triggers = Some [''work''],
          mood_created_at = 200\<rparr>,
         \<lparr>mood_email = ''b@x.com'', mood_mood = ''calm'', mood_triggers = Some [''sleep''],
          mood_created_at = 300\<rparr>,
         \<lparr>mood_email = ''a@x.com'', mood_mood = ''tired'', mood_triggers = None,
          mood_created_at = - 1000000000000\<rparr>],
      clock = 1000, faults = (\<lambda>n. False), queries = []\<rparr>"

text \<open>The store after two save requests on the empty store: one with the triggers
  \<^verbatim>\<open>["work", "work"]\<close>, one with the trigger \<^verbatim>\<open>"constructor"\<close>.\<close>

definition store2 :: store where
  "store2 =
     snd (save_mood_A (Some ''a@x.com'') (Some ''busy'') (Some [''constructor''])
       (snd (save_mood_A (Some ''a@x.com'') (Some ''stressed'') (Some [''work'', ''work'']) store0)))"

text \<open>One registered account, in the account table of either variant.\<close>

definition store3 :: store where
  "store3 =
     \<lparr>users = [\<lparr>user_email = ''a@x.com'', user_password = ''secret''\<rparr>],
      user1 = [\<lparr>user_email = ''a@x.com'', user_password = ''secret''\<rparr>],
      moods = [], clock = 1000, faults = (\<lambda>n. False), queries = []\<rparr>"

text \<open>A quotes provider: one quote for the tag \<open>inspirational\<close>, an empty result for
  \<open>motivational\<close>, and a failed call for any other URL.\<close>

definition provider0 :: "string \<Rightarrow> provider_reply" where
  "provider0 url =
     (if url = ''https://api.quotable.io/quotes?tags=inspirational&limit=3''
      then Data (Some [[(''_id'', units ''q1''), (''content'', units ''Be.''), (''author'', units ''N.N.''),
                        (''length'', units ''3'')]])
      else if url = ''https://api.quotable.io/quotes?tags=motivational&limit=3'' then Data (Some [])
      else Rejected)"

section \<open>Properties\<close>

subsection \<open>Decimal rendering and \<open>parseInt\<close>\<close>

lemma digit_char_cases:
  assumes "d < 10"
  shows "d = 0 \<or> d = 1 \<or> d = 2 \<or> d = 3 \<or> d = 4 \<or> d = 5 \<or> d = 6 \<or> d = 7 \<or> d = 8 \<or> d = (9::nat)"
  using assms by arith

lemma digit_of_digit_char: "d < 10 \<Longrightarrow> digit_of 10 (digit_char d) = Some d"
  using digit_char_cases [of d] by (auto simp: digit_of_def digit_char_def)

lemma digit_char_in: "d < 10 \<Longrightarrow> digit_char d \<in> set ''0123456789''"
  using digit_char_cases [of d] by (auto simp: digit_char_def)

lemma dec_nat_digits: "set (dec_nat n) \<subseteq> set ''0123456789''"
proof (induction n rule: dec_nat.induct)
  case (1 n)
  show ?case
  proof (cases "n < 10")
    case True
    then show ?thesis using digit_char_in [of n] by (subst dec_nat.simps) simp
  next
    case False
    have "n mod 10 < 10" by simp
    then have "digit_char (n mod 10) \<in> set ''0123456789''" by (rule digit_char_in)
    with False 1 show ?thesis by (subst dec_nat.simps) simp
  qed
qed

lemma dec_nat_not_Nil: "dec_nat n \<noteq> []"
  by (subst dec_nat.simps) simp

lemma decimal_digit_of: "c \<in> set ''0123456789'' \<Longrightarrow> digit_of 10 c \<noteq> None"
  by (auto simp: digit_of_def)

lemma decimal_not_space: "c \<in> set ''0123456789'' \<Longrightarrow> \<not> isWhiteSpace c"
  by (auto simp: isWhiteSpace_def)

lemma digits_value_dec_nat: "foldl (\<lambda>a c. a * 10 + the (digit_of 10 c)) 0 (dec_nat n) = n"
proof (induction n rule: dec_nat.induct)
  case (1 n)
  show ?case
  proof (cases "n < 10")
    case True
    then show ?thesis by (subst dec_nat.simps) (simp add: digit_of_digit_char)
  next
    case False
    with 1 show ?thesis by (subst dec_nat.simps) (simp add: digit_of_digit_char)
  qed
qed

lemma take2_dec_nat: "take 2 (dec_nat n) \<noteq> ''0x'' \<and> take 2 (dec_nat n) \<noteq> ''0X''"
proof -
  have "CHR ''x'' \<notin> set (dec_nat n)" "CHR ''X'' \<notin> set (dec_nat n)"
    using dec_nat_digits [of n] by auto
  moreover have "set (take 2 (dec_nat n)) \<subseteq> set (dec_nat n)" by (rule set_take_subset)
  ultimately show ?thesis by auto
qed

lemma takeWhile_dec_nat: "takeWhile (\<lambda>c. digit_of 10 c \<noteq> None) (dec_nat n) = dec_nat n"
  using dec_nat_digits [of n] decimal_digit_of by auto

lemma parseInt_dec_nat: "parseInt (dec_nat n) = Some (int n)"
proof -
  obtain c cs where cs: "dec_nat n = c # cs" using dec_nat_not_Nil [of n] by (cases "dec_nat n") auto
  have c: "c \<in> set ''0123456789''" using dec_nat_digits [of n] cs by auto
  have ws: "dropWhile isWhiteSpace (dec_nat n) = dec_nat n"
    using decimal_not_space [OF c] cs by simp
  have sg: "hd (dec_nat n) \<noteq> CHR ''-''" "hd (dec_nat n) \<noteq> CHR ''+''" using c cs by auto
  show ?thesis
    using take2_dec_nat [of n] dec_nat_not_Nil [of n]
    by (simp add: parseInt_def Let_def ws sg takeWhile_dec_nat digits_value_dec_nat del: not_None_eq)
qed

lemma parseInt_minus_dec_nat: "parseInt (CHR ''-'' # dec_nat n) = Some (- int n)"
  using take2_dec_nat [of n] dec_nat_not_Nil [of n]
  by (simp add: parseInt_def Let_def isWhiteSpace_def takeWhile_dec_nat digits_value_dec_nat
           del: not_None_eq)

lemma parseInt_js_number_string: "parseInt (js_number_string n) = Some n"
  by (simp add: js_number_string_def parseInt_dec_nat parseInt_minus_dec_nat)

lemma js_number_string_not_Nil: "js_number_string n \<noteq> []"
  by (simp add: js_number_string_def dec_nat_not_Nil)





lemma hd_dec_nat_digit: "hd (dec_nat m @ rest) \<in> set ''0123456789''"
proof -
  obtain c cs where "dec_nat m = c # cs" using dec_nat_not_Nil [of m] by (cases "dec_nat m") auto
  then show ?thesis using dec_nat_digits [of m] by auto
qed





lemma hd_js_number_string: "\<not> isWhiteSpace (hd (js_number_string n @ rest))"
proof (cases "n < 0")
  case True
  then show ?thesis by (simp add: js_number_string_def isWhiteSpace_def)
next
  case False
  then show ?thesis
    using decimal_not_space [OF hd_dec_nat_digit [of "nat n" rest]] by (simp add: js_number_string_def)
qed



subsection \<open>Saving a mood\<close>

lemma save_mood_missing:
  "\<not> truthy email \<or> \<not> truthy mood \<Longrightarrow>
   save_mood msg email mood triggers db =
     (\<lparr>status = 400, json = Message ''Email and mood are required''\<rparr>, db)"
  by (simp add: save_mood_def)

lemma save_mood_stored:
  assumes "e \<noteq> []" "m \<noteq> []" "\<not> faults db (length (queries db))"
  shows "save_mood msg (Some e) (Some m) triggers db =
     (\<lparr>status = 201, json = Message msg\<rparr>,
      db\<lparr>queries := queries db @
            [(''INSERT INTO moods (email, mood, triggers, created_at) VALUES ($1, $2, $3, NOW())'',
              [PText e, PText m, PArray (case triggers of None \<Rightarrow> [] | Some ts \<Rightarrow> ts)])],
         moods := moods db @
            [\<lparr>mood_email = e, mood_mood = m,
              mood_triggers = Some (case triggers of None \<Rightarrow> [] | Some ts \<Rightarrow> ts),
              mood_created_at = clock db\<rparr>]\<rparr>)"
  using assms by (simp add: save_mood_def pool_query_def insert_moods_def Let_def)

text \<open>
  C8. In both variants, a save request whose email or mood is missing or empty gets 400
  and leaves the store as it was, no statement sent. A request with both, on a store that
  runs the statement, gets 201, and the entry table gains exactly one row: the email, the
  mood, the triggers (the empty array when the field is omitted) and the store's clock as
  the time stamp; the account tables stay as they were.
\<close>

theorem save_mood_contract:
  assumes "save = save_mood_A \<or> save = save_mood_B"
  shows "(\<not> truthy email \<or> \<not> truthy mood \<longrightarrow>
            save email mood triggers db =
              (\<lparr>status = 400, json = Message ''Email and mood are required''\<rparr>, db)) \<and>
         (\<forall>e m. email = Some e \<and> e \<noteq> [] \<and> mood = Some m \<and> m \<noteq> [] \<and>
                \<not> faults db (length (queries db)) \<longrightarrow>
            status (fst (save email mood triggers db)) = 201 \<and>
            moods (snd (save email mood triggers db)) =
              moods db @
                [\<lparr>mood_email = e, mood_mood = m,
                  mood_triggers = Some (case triggers of None \<Rightarrow> [] | Some ts \<Rightarrow> ts),
                  mood_created_at = clock db\<rparr>] \<and>
            users (snd (save email mood triggers db)) = users db \<and>
            user1 (snd (save email mood triggers db)) = user1 db)"
  using assms save_mood_missing [of email mood _ triggers db]
  by (auto simp: save_mood_A_def save_mood_B_def save_mood_stored)

theorem save_mood_contract_witness:
  "save_mood_A None (Some ''happy'') None store0 =
     (\<lparr>status = 400, json = Message ''Email and mood are required''\<rparr>, store0) \<and>
   status (fst (save_mood_B (Some ''a@x.com'') (Some ''happy'') None store0)) = 201 \<and>
   moods (snd (save_mood_B (Some ''a@x.com'') (Some ''happy'') None store0)) =
     [\<lparr>mood_email = ''a@x.com'', mood_mood = ''happy'', mood_triggers = Some [],
       mood_created_at = 1000\<rparr>]"
  using save_mood_contract [of save_mood_A None "Some ''happy''" None store0]
        save_mood_contract [of save_mood_B "Some ''a@x.com''" "Some ''happy''" None store0]
  by (simp add: store0_def)

subsection \<open>Mood history\<close>

lemma history_rejected:
  assumes "e \<noteq> []" "d \<noteq> []"
    and "case parseInt d of None \<Rightarrow> True | Some k \<Rightarrow> k < 1 \<or> 365 < k"
  shows "history (Some e) (Some d) t db = (invalid_days, db)"
  using assms by (auto simp: history_def split: option.splits)

lemma history_accepted:
  assumes "e \<noteq> []" "d \<noteq> []" "parseInt d = Some k" "1 \<le> k" "k \<le> 365"
  shows "history (Some e) (Some d) t db =
     (if faults db (length (queries db))
      then \<lparr>status = 500, json = Message ''Server error while retrieving mood history''\<rparr>
      else \<lparr>status = 200,
            json = MoodHistory
                     (fst (select_history e k (if length (triggersArray t) > 0 then Some (triggersArray t) else None) db))
                     (triggerCounts (fst (select_history e k (if length (triggersArray t) > 0 then Some (triggersArray t) else None) db)))\<rparr>,
      db\<lparr>queries := queries db @ [(queryText k (triggersArray t), queryParams e (triggersArray t))]\<rparr>)"
  using assms by (simp add: history_def pool_query_def select_history_def Let_def)

lemma history_accepted_not_rejected:
  assumes "e \<noteq> []" "d \<noteq> []" "parseInt d = Some k" "1 \<le> k" "k \<le> 365"
  shows "status (fst (history (Some e) (Some d) t db)) \<noteq> 400"
    and "queries (snd (history (Some e) (Some d) t db)) =
           queries db @ [(queryText k (triggersArray t), queryParams e (triggersArray t))]"
  using assms by (simp_all add: history_accepted)

lemma history_sends:
  assumes "queries (snd (history email days t db)) \<noteq> queries db"
  shows "\<exists>e d k. email = Some e \<and> e \<noteq> [] \<and> days = Some d \<and> d \<noteq> [] \<and>
           parseInt d = Some k \<and> 1 \<le> k \<and> k \<le> 365"
proof -
  from assms obtain e d where ed: "email = Some e" "e \<noteq> []" "days = Some d" "d \<noteq> []"
    by (cases email; cases days) (auto simp: history_def split: if_splits)
  show ?thesis
  proof (cases "case parseInt d of None \<Rightarrow> True | Some k \<Rightarrow> k < 1 \<or> 365 < k")
    case True
    from history_rejected [OF ed(2) ed(4) True, of t db] assms ed show ?thesis by simp
  next
    case False
    then show ?thesis using ed by (auto split: option.splits)
  qed
qed

lemma parseInt_30_days: "parseInt ''30 days'' = Some 30"
  by code_simp









lemma select_history_sorted:
  "sorted_wrt (\<lambda>a b. entry_created_at a \<ge> entry_created_at b) (fst (select_history e k arr db))"
proof -
  let ?ms = "sort_key (\<lambda>m. - mood_created_at m) (filter (matches e k arr (clock db)) (moods db))"
  have "sorted (map (\<lambda>m. - mood_created_at m) ?ms)" by (rule sorted_sort_key)
  then have "sorted_wrt (\<lambda>a b. - mood_created_at a \<le> - mood_created_at b) ?ms"
    by (simp add: sorted_map)
  then have "sorted_wrt (\<lambda>a b. entry_created_at (project a) \<ge> entry_created_at (project b)) ?ms"
    by (simp add: project_def)
  then show ?thesis by (simp add: select_history_def sorted_wrt_map)
qed


lemma parseInt_Nil: "parseInt [] = None"
  by (simp add: parseInt_def)

lemma parseInt_7: "parseInt ''7'' = Some 7"
  by code_simp




text \<open>
  C6. The returned rows are in descending order of the time stamp, and each of them is
  the mood, the triggers and the time stamp of a stored entry of the queried owner; the
  row type has no field for the owner.
\<close>

theorem history_order:
  assumes "e \<noteq> []" "parseInt d = Some N" "1 \<le> N" "N \<le> 365"
    and "\<not> faults db (length (queries db))"
  shows "\<exists>rows counts.
           fst (history (Some e) (Some d) t db) = \<lparr>status = 200, json = MoodHistory rows counts\<rparr> \<and>
           sorted_wrt (\<lambda>a b. entry_created_at a \<ge> entry_created_at b) rows \<and>
           (\<forall>r \<in> set rows. \<exists>m \<in> set (moods db).
              mood_email m = e \<and>
              r = \<lparr>entry_mood = mood_mood m, entry_triggers = mood_triggers m,
                   entry_created_at = mood_created_at m\<rparr>)"
proof -
  let ?arr = "if length (triggersArray t) > 0 then Some (triggersArray t) else None"
  let ?rows = "fst (select_history e N ?arr db)"
  have d: "d \<noteq> []" using assms(2) parseInt_Nil by auto
  have r: "fst (history (Some e) (Some d) t db) =
             \<lparr>status = 200, json = MoodHistory ?rows (triggerCounts ?rows)\<rparr>"
    using history_accepted [OF assms(1) d assms(2,3,4), of t db] assms(5) by simp
  have s: "sorted_wrt (\<lambda>a b. entry_created_at a \<ge> entry_created_at b) ?rows"
    by (rule select_history_sorted)
  have p: "\<forall>r \<in> set ?rows. \<exists>m \<in> set (moods db).
              mood_email m = e \<and>
              r = \<lparr>entry_mood = mood_mood m, entry_triggers = mood_triggers m,
                   entry_created_at = mood_created_at m\<rparr>"
    by (auto simp: select_history_def matches_def project_def)
  from r s p show ?thesis by blast
qed

theorem history_order_witness:
  "status (fst (history (Some ''a@x.com'') (Some ''7'') None store1)) = 200 \<and>
   sorted_wrt (\<lambda>a b. entry_created_at a \<ge> entry_created_at b)
     (body_history (json (fst (history (Some ''a@x.com'') (Some ''7'') None store1)))) \<and>
   map entry_mood (body_history (json (fst (history (Some ''a@x.com'') (Some ''7'') None store1)))) =
     [''sad'', ''happy'']"
proof -
  have h: "''a@x.com'' \<noteq> []" "(1::int) \<le> 7" "(7::int) \<le> 365"
    "\<not> faults store1 (length (queries store1))"
    by (simp_all add: store1_def)
  from history_order [OF h(1) parseInt_7 h(2,3,4), of None]
  obtain rows counts where
    a: "fst (history (Some ''a@x.com'') (Some ''7'') None store1) =
          \<lparr>status = 200, json = MoodHistory rows counts\<rparr>"
    and b: "sorted_wrt (\<lambda>a b. entry_created_at a \<ge> entry_created_at b) rows"
    by blast
  have c: "map entry_mood (body_history (json (fst (history (Some ''a@x.com'') (Some ''7'') None store1)))) =
             [''sad'', ''happy'']"
    by (simp add: history_def parseInt_7 pool_query_def select_history_def store1_def matches_def
        days_before_def project_def triggersArray_def Let_def)
  from b c show ?thesis unfolding a by simp
qed

lemma dec_nat_length: "n < 1000 \<Longrightarrow> length (dec_nat n) \<le> 3"
proof -
  assume n: "n < 1000"
  have one: "length (dec_nat m) = 1" if "m < 10" for m
    using that by (subst dec_nat.simps) simp
  have two: "length (dec_nat m) \<le> 2" if "m < 100" for m
  proof (cases "m < 10")
    case True
    then show ?thesis using one by simp
  next
    case False
    have "m div 10 < 10" using that by simp
    then show ?thesis using False one [of "m div 10"] by (subst dec_nat.simps) simp
  qed
  show ?thesis
  proof (cases "n < 10")
    case True
    then show ?thesis using one by simp
  next
    case False
    have "n div 10 < 100" using n by simp
    then show ?thesis using False two [of "n div 10"] by (subst dec_nat.simps) simp
  qed
qed

lemma hd_dec_nat_not_zero: "0 < m \<Longrightarrow> hd (dec_nat m) \<noteq> CHR ''0''"
proof (induction m rule: dec_nat.induct)
  case (1 n)
  show ?case
  proof (cases "n < 10")
    case True
    have "dec_nat n = [digit_char n]" using True by (subst dec_nat.simps) simp
    moreover have "digit_char n \<noteq> CHR ''0''"
      using True "1.prems" digit_char_cases [of n] by (auto simp: digit_char_def)
    ultimately show ?thesis by simp
  next
    case False
    then have p: "0 < n div 10" by simp
    have "dec_nat n = dec_nat (n div 10) @ [digit_char (n mod 10)]"
      using False by (subst dec_nat.simps) simp
    then have "hd (dec_nat n) = hd (dec_nat (n div 10))"
      using dec_nat_not_Nil [of "n div 10"] by simp
    with "1.IH" [OF False p] show ?thesis by simp
  qed
qed

lemma queryText_explicit:
  "1 \<le> k \<Longrightarrow> queryText k arr =
     [CHR 0x0A] @ ''      SELECT mood, triggers, created_at'' @
     [CHR 0x0A] @ ''      FROM moods'' @
     [CHR 0x0A] @ ''      WHERE email = $1'' @
     [CHR 0x0A] @ ''        AND created_at >= NOW() - INTERVAL '' @
     [CHR 0x27] @ dec_nat (nat k) @ '' days'' @ [CHR 0x27] @
     [CHR 0x0A] @ ''    '' @
     (if arr = [] then [] else '' AND triggers && $2::text[]'') @
     '' ORDER BY created_at DESC''"
  by (simp add: queryText_def js_number_string_def)

text \<open>
  C10. Whenever the history handler sends a statement, \<open>parseInt\<close> gave an integer \<open>k\<close>
  with \<open>1 \<le> k \<le> 365\<close>, and the text sent is the fixed text of the source with, between
  \<^verbatim>\<open>INTERVAL '\<close> and \<^verbatim>\<open> days'\<close>, a string \<open>ds\<close> of one to three decimal digits without a
  leading zero that reads back as \<open>k\<close>, and with the trigger clause when the parsed filter
  is not empty. The owner and the filter travel as parameters, not in the text.
\<close>

theorem history_interval_text:
  assumes "queries (snd (history email days t db)) \<noteq> queries db"
  shows "\<exists>e d k ds.
           email = Some e \<and> days = Some d \<and> parseInt d = Some k \<and> 1 \<le> k \<and> k \<le> 365 \<and>
           parseInt ds = Some k \<and> set ds \<subseteq> set ''0123456789'' \<and> ds \<noteq> [] \<and> length ds \<le> 3 \<and>
           hd ds \<noteq> CHR ''0'' \<and>
           queries (snd (history email days t db)) =
             queries db @
               [([CHR 0x0A] @ ''      SELECT mood, triggers, created_at'' @
                 [CHR 0x0A] @ ''      FROM moods'' @
                 [CHR 0x0A] @ ''      WHERE email = $1'' @
                 [CHR 0x0A] @ ''        AND created_at >= NOW() - INTERVAL '' @
                 [CHR 0x27] @ ds @ '' days'' @ [CHR 0x27] @
                 [CHR 0x0A] @ ''    '' @
                 (if triggersArray t = [] then [] else '' AND triggers && $2::text[]'') @
                 '' ORDER BY created_at DESC'',
                 [PText e] @ (if triggersArray t = [] then [] else [PArray (triggersArray t)]))]"
proof -
  from history_sends [OF assms] obtain e d k where
    h: "email = Some e" "e \<noteq> []" "days = Some d" "d \<noteq> []" "parseInt d = Some k" "1 \<le> k" "k \<le> 365"
    by blast
  let ?ds = "dec_nat (nat k)"
  have q: "queries (snd (history email days t db)) =
             queries db @ [(queryText k (triggersArray t), queryParams e (triggersArray t))]"
    using history_accepted_not_rejected(2) [OF h(2) h(4) h(5) h(6) h(7), of t db] h(1,3) by simp
  have p: "parseInt ?ds = Some k" using parseInt_dec_nat [of "nat k"] h(6) by simp
  have "nat k < 1000" using h(7) by simp
  then have l: "length ?ds \<le> 3" by (rule dec_nat_length)
  have s: "set ?ds \<subseteq> set ''0123456789''" by (rule dec_nat_digits)
  have n: "?ds \<noteq> []" by (rule dec_nat_not_Nil)
  have "0 < nat k" using h(6) by simp
  then have z: "hd ?ds \<noteq> CHR ''0''" by (rule hd_dec_nat_not_zero)
  have x: "queries (snd (history email days t db)) =
             queries db @
               [([CHR 0x0A] @ ''      SELECT mood, triggers, created_at'' @
                 [CHR 0x0A] @ ''      FROM moods'' @
                 [CHR 0x0A] @ ''      WHERE email = $1'' @
                 [CHR 0x0A] @ ''        AND created_at >= NOW() - INTERVAL '' @
                 [CHR 0x27] @ ?ds @ '' days'' @ [CHR 0x27] @
                 [CHR 0x0A] @ ''    '' @
                 (if triggersArray t = [] then [] else '' AND triggers && $2::text[]'') @
                 '' ORDER BY created_at DESC'',
                 [PText e] @ (if triggersArray t = [] then [] else [PArray (triggersArray t)]))]"
    unfolding q queryText_explicit [OF h(6)] by (simp add: queryParams_def)
  show ?thesis
    apply (rule exI [of _ e])
    apply (rule exI [of _ d])
    apply (rule exI [of _ k])
    apply (rule exI [of _ ?ds])
    apply (intro conjI)
              apply (rule h(1))
             apply (rule h(3))
            apply (rule h(5))
           apply (rule h(6))
          apply (rule h(7))
         apply (rule p)
        apply (rule s)
       apply (rule n)
      apply (rule l)
     apply (rule z)
    apply (rule x)
    done
qed

theorem history_interval_text_witness:
  "queries (snd (history (Some ''a@x.com'') (Some ''30 days'') (Some ''work'') store0)) =
     [([CHR 0x0A] @ ''      SELECT mood, triggers, created_at'' @
       [CHR 0x0A] @ ''      FROM moods'' @
       [CHR 0x0A] @ ''      WHERE email = $1'' @
       [CHR 0x0A] @ ''        AND created_at >= NOW() - INTERVAL '' @
       [CHR 0x27] @ ''30 days'' @ [CHR 0x27] @
       [CHR 0x0A] @ ''    '' @
       '' AND triggers && $2::text[]'' @
       '' ORDER BY created_at DESC'',
       [PText ''a@x.com'', PArray [''work'']])]"
proof -
  have a: "queries (snd (history (Some ''a@x.com'') (Some ''30 days'') (Some ''work'') store0)) =
          queries store0 @ [(queryText 30 (triggersArray (Some ''work'')),
                             queryParams ''a@x.com'' (triggersArray (Some ''work'')))]"
    by (rule history_accepted_not_rejected(2)) (simp_all add: parseInt_30_days)
  then have "queries (snd (history (Some ''a@x.com'') (Some ''30 days'') (Some ''work'') store0)) \<noteq>
             queries store0"
    by simp
  from history_interval_text [OF this] obtain k ds where
    k: "parseInt ''30 days'' = Some k" and d: "parseInt ds = Some k" "set ds \<subseteq> set ''0123456789''"
      "ds \<noteq> []" "length ds \<le> 3" "hd ds \<noteq> CHR ''0''"
    and q: "queries (snd (history (Some ''a@x.com'') (Some ''30 days'') (Some ''work'') store0)) =
             queries store0 @
               [([CHR 0x0A] @ ''      SELECT mood, triggers, created_at'' @
                 [CHR 0x0A] @ ''      FROM moods'' @
                 [CHR 0x0A] @ ''      WHERE email = $1'' @
                 [CHR 0x0A] @ ''        AND created_at >= NOW() - INTERVAL '' @
                 [CHR 0x27] @ ds @ '' days'' @ [CHR 0x27] @
                 [CHR 0x0A] @ ''    '' @
                 (if triggersArray (Some ''work'') = [] then [] else '' AND triggers && $2::text[]'') @
                 '' ORDER BY created_at DESC'',
                 [PText ''a@x.com''] @
                 (if triggersArray (Some ''work'') = [] then [] else [PArray (triggersArray (Some ''work''))]))]"
    by auto
  have w: "triggersArray (Some ''work'') = [''work'']" by code_simp
  have "ds = ''30''"
    using a q by (simp add: queryText_def js_number_string_def dec_nat.simps digit_char_def w)
  with q show ?thesis by (simp add: w store0_def)
qed

subsection \<open>The trigger filter\<close>

lemma js_split_not_Nil: "js_split sep s \<noteq> []"
  by (induction s) (auto split: list.splits)

lemma js_join_Cons: "ps \<noteq> [] \<Longrightarrow> js_join sep (p # ps) = p @ sep # js_join sep ps"
  by (cases ps) auto

lemma js_join_split: "js_join sep (js_split sep s) = s"
proof (induction s)
  case Nil
  show ?case by simp
next
  case (Cons c cs)
  show ?case
  proof (cases "c = sep")
    case True
    with Cons show ?thesis by (simp add: js_join_Cons js_split_not_Nil)
  next
    case False
    obtain p ps where ps: "js_split sep cs = p # ps"
      using js_split_not_Nil [of sep cs] by (cases "js_split sep cs") auto
    with Cons False show ?thesis by (cases ps) auto
  qed
qed

lemma js_split_no_sep: "p \<in> set (js_split sep s) \<Longrightarrow> sep \<notin> set p"
proof (induction s arbitrary: p)
  case Nil
  then show ?case by simp
next
  case (Cons c cs)
  then show ?case by (auto split: if_splits list.splits)
qed

lemma trim_suffix: "\<exists>b. dropWhile isWhiteSpace s = trim s @ b \<and> (\<forall>c \<in> set b. isWhiteSpace c)"
proof -
  let ?t = "dropWhile isWhiteSpace s"
  have "rev ?t = takeWhile isWhiteSpace (rev ?t) @ dropWhile isWhiteSpace (rev ?t)" by simp
  then have "rev (rev ?t) = rev (dropWhile isWhiteSpace (rev ?t)) @ rev (takeWhile isWhiteSpace (rev ?t))"
    by (metis rev_append)
  then have "?t = trim s @ rev (takeWhile isWhiteSpace (rev ?t))" by (simp add: trim_def)
  moreover have "\<forall>c \<in> set (rev (takeWhile isWhiteSpace (rev ?t))). isWhiteSpace c"
    by (auto dest: set_takeWhileD)
  ultimately show ?thesis by blast
qed

lemma trim_decompose:
  "\<exists>a b. s = a @ trim s @ b \<and> (\<forall>c \<in> set a. isWhiteSpace c) \<and> (\<forall>c \<in> set b. isWhiteSpace c)"
proof -
  from trim_suffix [of s] obtain b where
    b: "dropWhile isWhiteSpace s = trim s @ b" "\<forall>c \<in> set b. isWhiteSpace c" by blast
  have "s = takeWhile isWhiteSpace s @ dropWhile isWhiteSpace s" by simp
  then have "s = takeWhile isWhiteSpace s @ trim s @ b" using b(1) by simp
  moreover have "\<forall>c \<in> set (takeWhile isWhiteSpace s). isWhiteSpace c"
    by (auto dest: set_takeWhileD)
  ultimately show ?thesis using b(2) by blast
qed

lemma trim_ends:
  assumes "trim s \<noteq> []"
  shows "\<not> isWhiteSpace (hd (trim s)) \<and> \<not> isWhiteSpace (last (trim s))"
proof -
  let ?t = "dropWhile isWhiteSpace s"
  let ?u = "dropWhile isWhiteSpace (rev ?t)"
  have u: "?u \<noteq> []" using assms by (simp add: trim_def)
  then have "\<not> isWhiteSpace (hd ?u)" by (rule hd_dropWhile)
  moreover have "last (trim s) = hd ?u" using u by (simp add: trim_def last_rev)
  ultimately have l: "\<not> isWhiteSpace (last (trim s))" by simp
  from trim_suffix [of s] obtain b where b: "?t = trim s @ b" by blast
  with assms have t: "?t \<noteq> []" by simp
  then have "\<not> isWhiteSpace (hd ?t)" by (rule hd_dropWhile)
  moreover have "hd ?t = hd (trim s)" using b assms by (metis hd_append2)
  ultimately show ?thesis using l by simp
qed

lemma triggersArray_Some:
  "triggersArray (Some s) = filter (\<lambda>p. p \<noteq> []) (map trim (js_split CHR '','' s))"
  by (cases s) (simp_all add: triggersArray_def trim_def)

lemma triggersArray_None: "triggersArray None = []"
  by (simp add: triggersArray_def)

lemma history_no_triggers:
  "triggersArray t = [] \<Longrightarrow> history email days t db = history email days None db"
  by (simp only: history_def triggersArray_None)

text \<open>
  C7. The trigger filter is the list of the non-empty trimmed pieces of the input split
  at the commas: the pieces joined by commas give the input back and hold no comma, and
  trimming a piece removes white space at its two ends and nothing else. An absent input
  gives the empty filter, and with an empty filter the request is handled as one without
  the triggers parameter: the statement has one parameter and no trigger clause.
\<close>

theorem triggers_parsing:
  "triggersArray None = [] \<and>
   triggersArray (Some s) = filter (\<lambda>p. p \<noteq> []) (map trim (js_split CHR '','' s)) \<and>
   js_join CHR '','' (js_split CHR '','' s) = s \<and>
   (\<forall>p \<in> set (js_split CHR '','' s).
      CHR '','' \<notin> set p \<and>
      (\<exists>a b. p = a @ trim p @ b \<and> (\<forall>c \<in> set a. isWhiteSpace c) \<and> (\<forall>c \<in> set b. isWhiteSpace c)) \<and>
      (trim p \<noteq> [] \<longrightarrow> \<not> isWhiteSpace (hd (trim p)) \<and> \<not> isWhiteSpace (last (trim p)))) \<and>
   (triggersArray t = [] \<longrightarrow>
      history email days t db = history email days None db \<and>
      queryParams e (triggersArray t) = [PText e] \<and>
      queryText k (triggersArray t) = queryText k [])"
proof -
  have 1: "triggersArray None = []" by (simp add: triggersArray_def)
  have 2: "\<forall>p \<in> set (js_split CHR '','' s).
      CHR '','' \<notin> set p \<and>
      (\<exists>a b. p = a @ trim p @ b \<and> (\<forall>c \<in> set a. isWhiteSpace c) \<and> (\<forall>c \<in> set b. isWhiteSpace c)) \<and>
      (trim p \<noteq> [] \<longrightarrow> \<not> isWhiteSpace (hd (trim p)) \<and> \<not> isWhiteSpace (last (trim p)))"
    using js_split_no_sep trim_decompose trim_ends by blast
  have 3: "triggersArray t = [] \<longrightarrow>
      history email days t db = history email days None db \<and>
      queryParams e (triggersArray t) = [PText e] \<and>
      queryText k (triggersArray t) = queryText k []"
    by (simp add: history_no_triggers queryParams_def)
  from 1 2 3 triggersArray_Some [of s] js_join_split [of "CHR '',''" s] show ?thesis by blast
qed

lemma triggersArray_example: "triggersArray (Some '' work , ,sleep,'') = [''work'', ''sleep'']"
  by code_simp

lemma triggersArray_blank: "triggersArray (Some '' , '') = []"
  by code_simp

lemma js_split_example: "js_split CHR '','' '' work , ,sleep,'' = ['' work '', '' '', ''sleep'', '''']"
  by code_simp

theorem triggers_parsing_witness:
  "filter (\<lambda>p. p \<noteq> []) (map trim ['' work '', '' '', ''sleep'', '''']) = [''work'', ''sleep''] \<and>
   js_join CHR '','' ['' work '', '' '', ''sleep'', ''''] = '' work , ,sleep,'' \<and>
   history (Some ''a@x.com'') (Some ''7'') (Some '' , '') store1 =
     history (Some ''a@x.com'') (Some ''7'') None store1"
  using triggers_parsing [of "'' work , ,sleep,''" "Some '' , ''" "Some ''a@x.com''" "Some ''7''" store1]
  by (simp add: triggersArray_example triggersArray_blank js_split_example)

subsection \<open>Accounts\<close>

lemma filter_find:
  "(case filter P xs of [] \<Rightarrow> a | y # ys \<Rightarrow> b y) = (case find P xs of None \<Rightarrow> a | Some y \<Rightarrow> b y)"
  by (induction xs) auto

lemma login_A_result:
  assumes "e \<noteq> []" "p \<noteq> []" "\<not> faults db (length (queries db))"
  shows "login_A (Some e) (Some p) db =
     (case find (\<lambda>r. user_email r = e) (users db) of
        None \<Rightarrow> \<lparr>status = 400, json = Message ''User not found. Please sign up first.''\<rparr>
      | Some r \<Rightarrow>
          if user_password r = p then \<lparr>status = 200, json = Message ''Login successful''\<rparr>
          else \<lparr>status = 401, json = Message ''Incorrect password''\<rparr>,
      db\<lparr>queries := queries db @ [(''SELECT * FROM users WHERE email = $1'', [PText e])]\<rparr>)"
proof -
  let ?rows = "filter (\<lambda>r. user_email r = e) (users db)"
  have "login_A (Some e) (Some p) db =
      (case ?rows of
         [] \<Rightarrow> \<lparr>status = 400, json = Message ''User not found. Please sign up first.''\<rparr>
       | r # rest \<Rightarrow>
           if user_password r = p then \<lparr>status = 200, json = Message ''Login successful''\<rparr>
           else \<lparr>status = 401, json = Message ''Incorrect password''\<rparr>,
       db\<lparr>queries := queries db @ [(''SELECT * FROM users WHERE email = $1'', [PText e])]\<rparr>)"
    using assms
    by (cases ?rows) (simp_all add: login_A_def login_def pool_query_def select_by_email_def Let_def)
  then show ?thesis by (simp only: filter_find)
qed

lemma login_B_result:
  assumes "e \<noteq> []" "p \<noteq> []" "\<not> faults db (length (queries db))"
  shows "login_B (Some e) (Some p) db =
     (case find (\<lambda>r. user_email r = e) (user1 db) of
        None \<Rightarrow> \<lparr>status = 400, json = Message ''User not found. Please sign up first.''\<rparr>
      | Some r \<Rightarrow>
          if user_password r = p then \<lparr>status = 200, json = Message ''Login successful''\<rparr>
          else \<lparr>status = 401, json = Message ''Incorrect password''\<rparr>,
      db\<lparr>queries := queries db @ [(''SELECT * FROM user1 WHERE email = $1'', [PText e])]\<rparr>)"
proof -
  let ?rows = "filter (\<lambda>r. user_email r = e) (user1 db)"
  have "login_B (Some e) (Some p) db =
      (case ?rows of
         [] \<Rightarrow> \<lparr>status = 400, json = Message ''User not found. Please sign up first.''\<rparr>
       | r # rest \<Rightarrow>
           if user_password r = p then \<lparr>status = 200, json = Message ''Login successful''\<rparr>
           else \<lparr>status = 401, json = Message ''Incorrect password''\<rparr>,
       db\<lparr>queries := queries db @ [(''SELECT * FROM user1 WHERE email = $1'', [PText e])]\<rparr>)"
    using assms
    by (cases ?rows) (simp_all add: login_B_def login_def pool_query_def select_by_email_def Let_def)
  then show ?thesis by (simp only: filter_find)
qed

text \<open>
  C5. A login request with non-empty email and password, on a store that runs the
  statement, is answered from the first row of the variant's account table whose email is
  the supplied one: 400 "User not found" when there is no such row, 401 when the row's
  stored password differs from the supplied one (equality of the two strings, nothing
  else), 200 when it is equal. No table changes.
\<close>

theorem login_outcomes:
  assumes "(lg = login_A \<and> t = users) \<or> (lg = login_B \<and> t = user1)"
    and "e \<noteq> []" "p \<noteq> []" "\<not> faults db (length (queries db))"
  shows "fst (lg (Some e) (Some p) db) =
           (case find (\<lambda>r. user_email r = e) (t db) of
              None \<Rightarrow> \<lparr>status = 400, json = Message ''User not found. Please sign up first.''\<rparr>
            | Some r \<Rightarrow>
                if user_password r = p then \<lparr>status = 200, json = Message ''Login successful''\<rparr>
                else \<lparr>status = 401, json = Message ''Incorrect password''\<rparr>) \<and>
         (find (\<lambda>r. user_email r = e) (t db) = None \<longleftrightarrow> (\<forall>r \<in> set (t db). user_email r \<noteq> e)) \<and>
         users (snd (lg (Some e) (Some p) db)) = users db \<and>
         user1 (snd (lg (Some e) (Some p) db)) = user1 db \<and>
         moods (snd (lg (Some e) (Some p) db)) = moods db"
  using assms(1) login_A_result [OF assms(2,3,4)] login_B_result [OF assms(2,3,4)]
  by (auto simp: find_None_iff)

theorem login_outcomes_witness:
  "fst (login_A (Some ''a@x.com'') (Some ''secret'') store3) =
     \<lparr>status = 200, json = Message ''Login successful''\<rparr> \<and>
   fst (login_B (Some ''a@x.com'') (Some ''Secret'') store3) =
     \<lparr>status = 401, json = Message ''Incorrect password''\<rparr> \<and>
   fst (login_B (Some ''b@x.com'') (Some ''secret'') store3) =
     \<lparr>status = 400, json = Message ''User not found. Please sign up first.''\<rparr>"
proof -
  have f: "\<not> faults store3 (length (queries store3))" by (simp add: store3_def)
  show ?thesis
    using login_outcomes [of login_A users "''a@x.com''" "''secret''" store3]
      login_outcomes [of login_B user1 "''a@x.com''" "''Secret''" store3]
      login_outcomes [of login_B user1 "''b@x.com''" "''secret''" store3] f
    by (simp add: store3_def)
qed

lemma signup_A_missing:
  "\<not> truthy email \<or> \<not> truthy password \<Longrightarrow>
   signup_A email password db = (\<lparr>status = 400, json = Message ''Email and password required''\<rparr>, db)"
  by (simp add: signup_A_def)

lemma signup_A_contract:
  assumes "e \<noteq> []" "p \<noteq> []"
    and "\<not> faults db (length (queries db))" "\<not> faults db (Suc (length (queries db)))"
  shows "signup_A (Some e) (Some p) db =
     (if \<exists>r \<in> set (users db). user_email r = e
      then (\<lparr>status = 400, json = Message ''User already exists''\<rparr>,
            db\<lparr>queries := queries db @ [(''SELECT * FROM users WHERE email = $1'', [PText e])]\<rparr>)
      else (\<lparr>status = 201, json = Message ''User registered successfully''\<rparr>,
            db\<lparr>queries := queries db @
                  [(''SELECT * FROM users WHERE email = $1'', [PText e]),
                   (''INSERT INTO users (email, password) VALUES ($1, $2)'', [PText e, PText p])],
               users := users db @ [\<lparr>user_email = e, user_password = p\<rparr>]\<rparr>))"
proof (cases "\<exists>r \<in> set (users db). user_email r = e")
  case True
  then have "filter (\<lambda>r. user_email r = e) (users db) \<noteq> []" by (auto simp: filter_empty_conv)
  with True assms show ?thesis
    by (simp add: signup_A_def pool_query_def select_by_email_def Let_def)
next
  case False
  then have "filter (\<lambda>r. user_email r = e) (users db) = []" by (auto simp: filter_empty_conv)
  with False assms show ?thesis
    by (simp add: signup_A_def pool_query_def select_by_email_def insert_users_def Let_def)
qed

text \<open>
  C4. In variant B the second signup with an email that the first one registered is
  answered 201 again and adds a second row for that email to \<open>user1\<close>: the existence check
  reads \<open>users\<close>, which the handler never writes. Variant A answers the second signup
  with 400 (\<open>signup_A_contract\<close> above gives its behaviour in general).
\<close>

theorem signup_B_registers_twice:
  "status (fst (signup_B (Some ''a@x.com'') (Some ''pw1'') store0)) = 201 \<and>
   status (fst (signup_B (Some ''a@x.com'') (Some ''pw2'')
                  (snd (signup_B (Some ''a@x.com'') (Some ''pw1'') store0)))) = 201 \<and>
   user1 (snd (signup_B (Some ''a@x.com'') (Some ''pw2'')
                  (snd (signup_B (Some ''a@x.com'') (Some ''pw1'') store0)))) =
     [\<lparr>user_email = ''a@x.com'', user_password = ''pw1''\<rparr>,
      \<lparr>user_email = ''a@x.com'', user_password = ''pw2''\<rparr>] \<and>
   status (fst (signup_A (Some ''a@x.com'') (Some ''pw2'')
                  (snd (signup_A (Some ''a@x.com'') (Some ''pw1'') store0)))) = 400"
  by (simp add: signup_B_def signup_A_def pool_query_def select_by_email_def insert_user1_def
      insert_users_def store0_def Let_def)

theorem signup_B_registers_twice_witness:
  "status (fst (signup_B (Some ''a@x.com'') (Some ''pw2'')
                  (snd (signup_B (Some ''a@x.com'') (Some ''pw1'') store0)))) \<noteq> 400 \<and>
   length (filter (\<lambda>r. user_email r = ''a@x.com'')
             (user1 (snd (signup_B (Some ''a@x.com'') (Some ''pw2'')
                            (snd (signup_B (Some ''a@x.com'') (Some ''pw1'') store0)))))) = 2"
  using signup_B_registers_twice by simp

subsection \<open>The frequency table\<close>

lemma prototype_get_proto: "prototype_get T = JUndefined \<Longrightarrow> T \<noteq> ''__proto__''"
  by (auto simp: prototype_get_def)

lemma count_trigger_other: "x \<noteq> T \<Longrightarrow> count_trigger tc x T = tc T"
  by (simp add: count_trigger_def set_property_def)

lemma count_trigger_same:
  assumes "prototype_get T = JUndefined" "tc T = counted c"
  shows "count_trigger tc T T = counted (Suc c)"
  using assms prototype_get_proto [OF assms(1)]
  by (cases c) (simp_all add: count_trigger_def set_property_def get_property_def counted_def)

lemma foldl_count_trigger:
  assumes "prototype_get T = JUndefined"
  shows "tc T = counted c \<Longrightarrow> foldl count_trigger tc ts T = counted (c + count_list ts T)"
proof (induction ts arbitrary: tc c)
  case Nil
  then show ?case by simp
next
  case (Cons x xs)
  show ?case
  proof (cases "x = T")
    case True
    have "count_trigger tc x T = counted (Suc c)"
      using count_trigger_same [of T tc c] assms Cons.prems True by simp
    with Cons.IH [of "count_trigger tc x" "Suc c"] True show ?thesis by simp
  next
    case False
    then have "count_trigger tc x T = counted c"
      using Cons.prems by (simp add: count_trigger_other)
    with Cons.IH [of "count_trigger tc x" c] False show ?thesis by simp
  qed
qed

lemma foldl_rows_count:
  assumes "prototype_get T = JUndefined"
  shows "tc T = counted c \<Longrightarrow>
         foldl (\<lambda>tc e. foldl count_trigger tc (triggers_or_empty e)) tc rows T =
           counted (c + occurrences T rows)"
proof (induction rows arbitrary: tc c)
  case Nil
  then show ?case by (simp add: occurrences_def)
next
  case (Cons r rs)
  have "foldl count_trigger tc (triggers_or_empty r) T = counted (c + count_list (triggers_or_empty r) T)"
    using foldl_count_trigger [of T tc c "triggers_or_empty r"] assms Cons.prems by simp
  with Cons.IH [of "foldl count_trigger tc (triggers_or_empty r)" "c + count_list (triggers_or_empty r) T"]
  show ?case by (simp add: occurrences_def add.assoc)
qed

lemma triggerCounts_occurrences:
  "prototype_get T = JUndefined \<Longrightarrow> triggerCounts rows T = counted (occurrences T rows)"
  using foldl_rows_count [of T Map.empty 0 rows] by (simp add: triggerCounts_def counted_def)

lemma dom_count_trigger: "dom (count_trigger tc x) \<subseteq> insert x (dom tc)"
  by (simp add: count_trigger_def set_property_def subset_insertI)

lemma subset_step: "A \<subseteq> B \<union> C \<Longrightarrow> B \<subseteq> insert x D \<Longrightarrow> A \<subseteq> D \<union> insert x C"
  by blast

lemma dom_foldl_count_trigger: "dom (foldl count_trigger tc ts) \<subseteq> dom tc \<union> set ts"
proof (induction ts arbitrary: tc)
  case Nil
  show ?case by simp
next
  case (Cons x xs)
  have "dom (foldl count_trigger (count_trigger tc x) xs) \<subseteq> dom tc \<union> insert x (set xs)"
    using Cons.IH [of "count_trigger tc x"] dom_count_trigger [of tc x] by (rule subset_step)
  then show ?case by (simp only: foldl.simps list.set)
qed

lemma subset_rows_step: "A \<subseteq> B \<union> C \<Longrightarrow> B \<subseteq> D \<union> E \<Longrightarrow> A \<subseteq> D \<union> (E \<union> C)"
  by blast

lemma dom_foldl_rows:
  "dom (foldl (\<lambda>tc e. foldl count_trigger tc (triggers_or_empty e)) tc rows) \<subseteq>
     dom tc \<union> (\<Union>r \<in> set rows. set (triggers_or_empty r))"
proof (induction rows arbitrary: tc)
  case Nil
  show ?case by simp
next
  case (Cons r rs)
  have "dom (foldl (\<lambda>tc e. foldl count_trigger tc (triggers_or_empty e))
               (foldl count_trigger tc (triggers_or_empty r)) rs) \<subseteq>
          dom tc \<union> (set (triggers_or_empty r) \<union> (\<Union>r \<in> set rs. set (triggers_or_empty r)))"
    using Cons.IH [of "foldl count_trigger tc (triggers_or_empty r)"]
      dom_foldl_count_trigger [of tc "triggers_or_empty r"]
    by (rule subset_rows_step)
  then show ?case by (simp only: foldl.simps list.set UN_insert)
qed

lemma dom_triggerCounts: "dom (triggerCounts rows) \<subseteq> (\<Union>r \<in> set rows. set (triggers_or_empty r))"
  using dom_foldl_rows [of Map.empty rows] by (simp only: triggerCounts_def dom_empty Un_empty_left)

lemma count_list_distinct: "distinct ts \<Longrightarrow> count_list ts T = (if T \<in> set ts then 1 else 0)"
  by (induction ts) auto

lemma occurrences_distinct:
  "\<forall>r \<in> set rows. distinct (triggers_or_empty r) \<Longrightarrow> occurrences T rows = entries_with T rows"
  by (induction rows) (auto simp: occurrences_def entries_with_def count_list_distinct)

text \<open>
  C2 (amended). For a history request that is answered 200, the table in the response is
  computed from the returned rows alone. For every trigger \<open>T\<close> that is not the name of a
  member of \<^verbatim>\<open>Object.prototype\<close>, the table has no key \<open>T\<close> when \<open>T\<close> does not occur in the
  returned rows, and else maps \<open>T\<close> to the number of its occurrences in the rows' trigger
  arrays; that number is the number of returned rows containing \<open>T\<close> when no returned
  row lists a trigger twice. Every key of the table is a trigger of a returned row. When
  no stored entry matches, the response is 200 with no rows and the empty table.
\<close>

theorem history_trigger_counts:
  assumes "e \<noteq> []" "parseInt d = Some N" "1 \<le> N" "N \<le> 365"
    and "\<not> faults db (length (queries db))"
  shows "\<exists>rows.
           fst (history (Some e) (Some d) t db) =
             \<lparr>status = 200, json = MoodHistory rows (triggerCounts rows)\<rparr> \<and>
           (\<forall>T. prototype_get T = JUndefined \<longrightarrow>
                triggerCounts rows T =
                  (if occurrences T rows = 0 then None else Some (JNumber (occurrences T rows)))) \<and>
           ((\<forall>r \<in> set rows. distinct (triggers_or_empty r)) \<longrightarrow>
              (\<forall>T. occurrences T rows = entries_with T rows)) \<and>
           dom (triggerCounts rows) \<subseteq> (\<Union>r \<in> set rows. set (triggers_or_empty r)) \<and>
           ((\<forall>m \<in> set (moods db).
               \<not> matches e N (if triggersArray t = [] then None else Some (triggersArray t)) (clock db) m) \<longrightarrow>
              rows = [] \<and> triggerCounts rows = Map.empty)"
proof -
  let ?arr = "if length (triggersArray t) > 0 then Some (triggersArray t) else None"
  let ?rows = "fst (select_history e N ?arr db)"
  have d: "d \<noteq> []" using assms(2) parseInt_Nil by auto
  have r: "fst (history (Some e) (Some d) t db) =
             \<lparr>status = 200, json = MoodHistory ?rows (triggerCounts ?rows)\<rparr>"
    using history_accepted [OF assms(1) d assms(2,3,4), of t db] assms(5) by simp
  have c: "\<forall>T. prototype_get T = JUndefined \<longrightarrow>
             triggerCounts ?rows T =
               (if occurrences T ?rows = 0 then None else Some (JNumber (occurrences T ?rows)))"
    using triggerCounts_occurrences [of _ ?rows] by (simp add: counted_def)
  have o: "(\<forall>r \<in> set ?rows. distinct (triggers_or_empty r)) \<longrightarrow>
             (\<forall>T. occurrences T ?rows = entries_with T ?rows)"
    using occurrences_distinct [of ?rows] by blast
  have a: "?arr = (if triggersArray t = [] then None else Some (triggersArray t))" by simp
  have n: "(\<forall>m \<in> set (moods db).
               \<not> matches e N (if triggersArray t = [] then None else Some (triggersArray t)) (clock db) m) \<longrightarrow>
           ?rows = [] \<and> triggerCounts ?rows = Map.empty"
    unfolding a by (simp add: select_history_def triggerCounts_def filter_empty_conv)
  show ?thesis
    apply (rule exI [of _ ?rows])
    apply (intro conjI)
    apply (rule r)
    apply (rule c)
    apply (rule o)
    apply (rule dom_triggerCounts)
    apply (rule n)
    done
qed


lemma store1_sleep_rows:
  "body_history (json (fst (history (Some ''a@x.com'') (Some ''7'') (Some ''sleep'') store1))) =
     [\<lparr>entry_mood = ''happy'', entry_triggers = Some [''work'', ''sleep''], entry_created_at = 100\<rparr>]"
  by code_simp

lemma proto_triggers:
  "prototype_get ''sleep'' = JUndefined" "prototype_get ''work'' = JUndefined"
  "prototype_get ''rain'' = JUndefined"
  by code_simp+

theorem history_trigger_counts_witness:
  "body_counts (json (fst (history (Some ''a@x.com'') (Some ''7'') (Some ''sleep'') store1))) ''sleep'' =
     Some (JNumber 1) \<and>
   body_counts (json (fst (history (Some ''a@x.com'') (Some ''7'') (Some ''sleep'') store1))) ''work'' =
     Some (JNumber 1) \<and>
   body_counts (json (fst (history (Some ''a@x.com'') (Some ''7'') (Some ''sleep'') store1))) ''rain'' =
     None"
proof -
  have h: "''a@x.com'' \<noteq> []" "(1::int) \<le> 7" "(7::int) \<le> 365"
    "\<not> faults store1 (length (queries store1))"
    by (simp_all add: store1_def)
  from history_trigger_counts [OF h(1) parseInt_7 h(2,3,4), of "Some ''sleep''"]
  obtain rows where
    a: "fst (history (Some ''a@x.com'') (Some ''7'') (Some ''sleep'') store1) =
          \<lparr>status = 200, json = MoodHistory rows (triggerCounts rows)\<rparr>"
    and c: "\<forall>T. prototype_get T = JUndefined \<longrightarrow>
              triggerCounts rows T =
                (if occurrences T rows = 0 then None else Some (JNumber (occurrences T rows)))"
    by blast
  have r: "rows =
     [\<lparr>entry_mood = ''happy'', entry_triggers = Some [''work'', ''sleep''], entry_created_at = 100\<rparr>]"
    using store1_sleep_rows unfolding a by simp
  have "triggerCounts rows ''sleep'' = Some (JNumber 1)" "triggerCounts rows ''work'' = Some (JNumber 1)"
    "triggerCounts rows ''rain'' = None"
    using c proto_triggers by (simp_all add: r occurrences_def triggers_or_empty_def)
  then show ?thesis unfolding a by simp
qed

text \<open>
  C2, as the claim states it, fails. After a save request with the triggers
  \<^verbatim>\<open>["work", "work"]\<close> and one with the trigger \<^verbatim>\<open>"constructor"\<close>, one returned entry
  contains \<open>work\<close> and the table holds 2 for it; and for \<open>constructor\<close> the table holds a
  string, not a count.
\<close>

theorem triggerCounts_counterexample:
  "body_counts (json (fst (history (Some ''a@x.com'') (Some ''7'') None store2))) ''work'' =
     Some (JNumber 2) \<and>
   entries_with ''work'' (body_history (json (fst (history (Some ''a@x.com'') (Some ''7'') None store2)))) = 1 \<and>
   body_counts (json (fst (history (Some ''a@x.com'') (Some ''7'') None store2))) ''constructor'' =
     Some (JString ''function Object() { [native code] }1'')"
  by code_simp

subsection \<open>Quotes\<close>

lemma quote_object_keys: "map fst (quote_object i c a) = [''_id'', ''content'', ''author'']"
  by (simp add: quote_object_def)

lemma staticQuotes_keys:
  "\<forall>kv \<in> set staticQuotes. \<forall>q \<in> set (snd kv). map fst q = [''_id'', ''content'', ''author'']"
  by (simp add: staticQuotes_def quote_object_keys)

lemma quotes_B_missing:
  "\<not> truthy mood \<Longrightarrow> quotes_B mood = \<lparr>status = 400, json = Message ''Mood is required''\<rparr>"
  by (simp add: quotes_B_def)

lemma quotes_A_missing:
  "\<not> truthy mood \<Longrightarrow> quotes_A fetch mood = \<lparr>status = 400, json = Message ''Mood is required''\<rparr>"
  by (simp add: quotes_A_def)

lemma quotes_B_known:
  assumes "m \<noteq> []" "prototype_get (toLowerCase m) = JUndefined"
  shows "quotes_B (Some m) =
           \<lparr>status = 200,
            json = QuoteList (case map_of staticQuotes (toLowerCase m) of None \<Rightarrow> [] | Some qs \<Rightarrow> qs)\<rparr>"
  using assms by (simp add: quotes_B_def split: option.splits)

lemma quotes_A_result:
  assumes "m \<noteq> []"
  shows "quotes_A fetch (Some m) =
     (case fetch (quotes_url (keyword_of (toLowerCase m))) of
        Rejected \<Rightarrow> \<lparr>status = 500, json = Message ''Failed to fetch quotes''\<rparr>
      | Data None \<Rightarrow> \<lparr>status = 404, json = Message ''No quotes found''\<rparr>
      | Data (Some rs) \<Rightarrow>
          if rs = [] then \<lparr>status = 404, json = Message ''No quotes found''\<rparr>
          else \<lparr>status = 200, json = QuoteList rs\<rparr>)"
  using assms by (simp add: quotes_A_def split: provider_reply.splits option.splits)

lemma keyword_of_known:
  "prototype_get k = JUndefined \<Longrightarrow>
   keyword_of k = JString (case map_of moodKeywords k of None \<Rightarrow> ''motivational'' | Some w \<Rightarrow> w)"
  by (simp add: keyword_of_def split: option.splits)

lemma staticQuotes_ids:
  "map (\<lambda>kv. (fst kv, map (\<lambda>q. map_of q ''_id'') (snd kv))) staticQuotes =
     [(''happy'', map (\<lambda>i. Some (units i)) [''1'', ''2'', ''3'', ''4'', ''5'', ''6'']),
      (''calm'', map (\<lambda>i. Some (units i)) [''25'', ''26'', ''27'', ''28'', ''29'', ''30'']),
      (''neutral'', map (\<lambda>i. Some (units i)) [''49'', ''50'', ''51'', ''52'', ''53'', ''54'']),
      (''worried'', map (\<lambda>i. Some (units i)) [''31'', ''32'', ''33'', ''34'', ''35'', ''36'']),
      (''sad'', map (\<lambda>i. Some (units i)) [''7'', ''8'', ''9'', ''10'', ''11'', ''12'']),
      (''frustrated'', map (\<lambda>i. Some (units i)) [''55'', ''56'', ''57'', ''58'', ''59'', ''60'']),
      (''angry'', map (\<lambda>i. Some (units i)) [''13'', ''14'', ''15'', ''16'', ''17'', ''18'']),
      (''loved'', map (\<lambda>i. Some (units i)) [''61'', ''62'', ''63'', ''64'', ''65'', ''66''])]"
  by (simp add: staticQuotes_def quote_object_def)

lemma toLowerCase_alphabet:
  "toLowerCase ''ABCDEFGHIJKLMNOPQRSTUVWXYZ'' = ''abcdefghijklmnopqrstuvwxyz''"
  "toLowerCase ''abcdefghijklmnopqrstuvwxyz'' = ''abcdefghijklmnopqrstuvwxyz''"
  by code_simp+

lemma toLowerCase_append: "toLowerCase (a @ b) = toLowerCase a @ toLowerCase b"
  by (simp add: toLowerCase_def)

lemma quotes_B_list_shape:
  "\<forall>q \<in> set (case map_of staticQuotes k of None \<Rightarrow> [] | Some qs \<Rightarrow> qs).
     map fst q = [''_id'', ''content'', ''author'']"
proof (cases "map_of staticQuotes k")
  case None
  then show ?thesis by simp
next
  case (Some qs)
  then have "(k, qs) \<in> set staticQuotes" by (rule map_of_SomeD)
  then have "\<forall>q \<in> set qs. map fst q = [''_id'', ''content'', ''author'']"
    using staticQuotes_keys by fastforce
  with Some show ?thesis by simp
qed

lemma keyword_explicit:
  "prototype_get k = JUndefined \<Longrightarrow>
   quotes_url (keyword_of k) =
     ''https://api.quotable.io/quotes?tags='' @
     (if k = ''happy'' then ''inspirational''
      else if k = ''sad'' then ''life''
      else if k = ''angry'' then ''anger''
      else if k = ''relaxed'' then ''peace''
      else ''motivational'') @
     ''&limit=3''"
  by (simp add: keyword_of_known quotes_url_def moodKeywords_def)

lemma map_of_map_snd:
  "map_of (map (\<lambda>kv. (fst kv, f (snd kv))) xs) k = map_option f (map_of xs k)"
  by (induction xs) auto

lemma quotes_B_ids:
  "map (\<lambda>q. map_of q ''_id'') (case map_of staticQuotes k of None \<Rightarrow> [] | Some qs \<Rightarrow> qs) =
     (case map_of
        [(''happy'', map (\<lambda>i. Some (units i)) [''1'', ''2'', ''3'', ''4'', ''5'', ''6'']),
         (''calm'', map (\<lambda>i. Some (units i)) [''25'', ''26'', ''27'', ''28'', ''29'', ''30'']),
         (''neutral'', map (\<lambda>i. Some (units i)) [''49'', ''50'', ''51'', ''52'', ''53'', ''54'']),
         (''worried'', map (\<lambda>i. Some (units i)) [''31'', ''32'', ''33'', ''34'', ''35'', ''36'']),
         (''sad'', map (\<lambda>i. Some (units i)) [''7'', ''8'', ''9'', ''10'', ''11'', ''12'']),
         (''frustrated'', map (\<lambda>i. Some (units i)) [''55'', ''56'', ''57'', ''58'', ''59'', ''60'']),
         (''angry'', map (\<lambda>i. Some (units i)) [''13'', ''14'', ''15'', ''16'', ''17'', ''18'']),
         (''loved'', map (\<lambda>i. Some (units i)) [''61'', ''62'', ''63'', ''64'', ''65'', ''66''])] k of
        None \<Rightarrow> [] | Some ids \<Rightarrow> ids)"
proof -
  have "map_of (map (\<lambda>kv. (fst kv, map (\<lambda>q. map_of q ''_id'') (snd kv))) staticQuotes) k =
          map_option (map (\<lambda>q. map_of q ''_id'')) (map_of staticQuotes k)"
    by (rule map_of_map_snd)
  then show ?thesis
    unfolding staticQuotes_ids by (cases "map_of staticQuotes k") (simp_all only: option.simps list.map)
qed

text \<open>
  C9 (amended). In both variants a missing or empty mood gets 400, and a mood is looked
  up by its lower-case form (which maps A to Z onto a to z, letter by letter), so two
  moods with the same lower-case form get the same answer. For a mood whose lower-case
  form is not the name of a member of \<^verbatim>\<open>Object.prototype\<close>: variant B answers 200 with the
  table's list for the mood, the empty list for a mood that is not a key of the table,
  never 404; every object of the list has the keys \<open>_id\<close>, \<open>content\<close> and \<open>author\<close>, and
  the \<open>_id\<close>s are the six listed for each of the eight moods of the table; variant A
  calls the provider with the tag \<open>inspirational\<close>, \<open>life\<close>, \<open>anger\<close> or \<open>peace\<close> for
  \<open>happy\<close>, \<open>sad\<close>, \<open>angry\<close> or \<open>relaxed\<close>, and \<open>motivational\<close> for any other mood. For
  every mood variant A answers 500 when the call fails, 404 when the reply has no
  results or an empty list, else 200 with the provider's list as it came.
\<close>

theorem quotes_contract:
  "(\<not> truthy mood \<longrightarrow>
      quotes_A fetch mood = \<lparr>status = 400, json = Message ''Mood is required''\<rparr> \<and>
      quotes_B mood = \<lparr>status = 400, json = Message ''Mood is required''\<rparr>) \<and>
   (m \<noteq> [] \<longrightarrow>
      (\<forall>m'. m' \<noteq> [] \<and> toLowerCase m' = toLowerCase m \<longrightarrow>
         quotes_B (Some m') = quotes_B (Some m) \<and> quotes_A fetch (Some m') = quotes_A fetch (Some m)) \<and>
      (prototype_get (toLowerCase m) = JUndefined \<longrightarrow>
         quotes_B (Some m) =
           \<lparr>status = 200,
            json = QuoteList (case map_of staticQuotes (toLowerCase m) of None \<Rightarrow> [] | Some qs \<Rightarrow> qs)\<rparr> \<and>
         (\<forall>q \<in> set (case map_of staticQuotes (toLowerCase m) of None \<Rightarrow> [] | Some qs \<Rightarrow> qs).
            map fst q = [''_id'', ''content'', ''author'']) \<and>
         map (\<lambda>q. map_of q ''_id'')
             (case map_of staticQuotes (toLowerCase m) of None \<Rightarrow> [] | Some qs \<Rightarrow> qs) =
           (case map_of
              [(''happy'', map (\<lambda>i. Some (units i)) [''1'', ''2'', ''3'', ''4'', ''5'', ''6'']),
               (''calm'', map (\<lambda>i. Some (units i)) [''25'', ''26'', ''27'', ''28'', ''29'', ''30'']),
               (''neutral'', map (\<lambda>i. Some (units i)) [''49'', ''50'', ''51'', ''52'', ''53'', ''54'']),
               (''worried'', map (\<lambda>i. Some (units i)) [''31'', ''32'', ''33'', ''34'', ''35'', ''36'']),
               (''sad'', map (\<lambda>i. Some (units i)) [''7'', ''8'', ''9'', ''10'', ''11'', ''12'']),
               (''frustrated'', map (\<lambda>i. Some (units i)) [''55'', ''56'', ''57'', ''58'', ''59'', ''60'']),
               (''angry'', map (\<lambda>i. Some (units i)) [''13'', ''14'', ''15'', ''16'', ''17'', ''18'']),
               (''loved'', map (\<lambda>i. Some (units i)) [''61'', ''62'', ''63'', ''64'', ''65'', ''66''])]
              (toLowerCase m) of
              None \<Rightarrow> [] | Some ids \<Rightarrow> ids) \<and>
         quotes_A fetch (Some m) =
           (case fetch (''https://api.quotable.io/quotes?tags='' @
                        (if toLowerCase m = ''happy'' then ''inspirational''
                         else if toLowerCase m = ''sad'' then ''life''
                         else if toLowerCase m = ''angry'' then ''anger''
                         else if toLowerCase m = ''relaxed'' then ''peace''
                         else ''motivational'') @
                        ''&limit=3'') of
              Rejected \<Rightarrow> \<lparr>status = 500, json = Message ''Failed to fetch quotes''\<rparr>
            | Data None \<Rightarrow> \<lparr>status = 404, json = Message ''No quotes found''\<rparr>
            | Data (Some rs) \<Rightarrow>
                if rs = [] then \<lparr>status = 404, json = Message ''No quotes found''\<rparr>
                else \<lparr>status = 200, json = QuoteList rs\<rparr>)) \<and>
      quotes_A fetch (Some m) =
        (case fetch (quotes_url (keyword_of (toLowerCase m))) of
           Rejected \<Rightarrow> \<lparr>status = 500, json = Message ''Failed to fetch quotes''\<rparr>
         | Data None \<Rightarrow> \<lparr>status = 404, json = Message ''No quotes found''\<rparr>
         | Data (Some rs) \<Rightarrow>
             if rs = [] then \<lparr>status = 404, json = Message ''No quotes found''\<rparr>
             else \<lparr>status = 200, json = QuoteList rs\<rparr>)) \<and>
   toLowerCase ''ABCDEFGHIJKLMNOPQRSTUVWXYZ'' = ''abcdefghijklmnopqrstuvwxyz'' \<and>
   toLowerCase ''abcdefghijklmnopqrstuvwxyz'' = ''abcdefghijklmnopqrstuvwxyz'' \<and>
   toLowerCase (a @ b) = toLowerCase a @ toLowerCase b"
proof -
  have 1: "\<not> truthy mood \<longrightarrow>
      quotes_A fetch mood = \<lparr>status = 400, json = Message ''Mood is required''\<rparr> \<and>
      quotes_B mood = \<lparr>status = 400, json = Message ''Mood is required''\<rparr>"
    using quotes_A_missing quotes_B_missing by blast
  have 2: "\<forall>m'. m' \<noteq> [] \<and> toLowerCase m' = toLowerCase m \<longrightarrow>
         quotes_B (Some m') = quotes_B (Some m) \<and> quotes_A fetch (Some m') = quotes_A fetch (Some m)"
    if "m \<noteq> []"
    using that by (simp add: quotes_B_def quotes_A_def cong: option.case_cong)
  have 3: "quotes_A fetch (Some m) =
           (case fetch (''https://api.quotable.io/quotes?tags='' @
                        (if toLowerCase m = ''happy'' then ''inspirational''
                         else if toLowerCase m = ''sad'' then ''life''
                         else if toLowerCase m = ''angry'' then ''anger''
                         else if toLowerCase m = ''relaxed'' then ''peace''
                         else ''motivational'') @
                        ''&limit=3'') of
              Rejected \<Rightarrow> \<lparr>status = 500, json = Message ''Failed to fetch quotes''\<rparr>
            | Data None \<Rightarrow> \<lparr>status = 404, json = Message ''No quotes found''\<rparr>
            | Data (Some rs) \<Rightarrow>
                if rs = [] then \<lparr>status = 404, json = Message ''No quotes found''\<rparr>
                else \<lparr>status = 200, json = QuoteList rs\<rparr>)"
    if "m \<noteq> []" "prototype_get (toLowerCase m) = JUndefined"
    unfolding quotes_A_result [OF that(1)] keyword_explicit [OF that(2)] ..
  show ?thesis
    apply (rule conjI)
     apply (rule 1)
    apply (rule conjI)
     apply (rule impI)
     apply (rule conjI)
      apply (erule 2)
     apply (rule conjI)
      apply (rule impI)
      apply (rule conjI)
       apply (erule (1) quotes_B_known)
      apply (rule conjI)
       apply (rule quotes_B_list_shape)
      apply (rule conjI)
       apply (rule quotes_B_ids)
      apply (erule (1) 3)
     apply (erule quotes_A_result)
    apply (rule conjI)
     apply (rule toLowerCase_alphabet(1))
    apply (rule conjI)
     apply (rule toLowerCase_alphabet(2))
    apply (rule toLowerCase_append)
    done
qed

lemma lower_examples:
  "toLowerCase ''HAPPY'' = ''happy''" "toLowerCase ''happy'' = ''happy''"
  "toLowerCase ''Bored'' = ''bored''" "toLowerCase ''Sad'' = ''sad''"
  by code_simp+

lemma proto_examples:
  "prototype_get ''happy'' = JUndefined" "prototype_get ''bored'' = JUndefined"
  "prototype_get ''sad'' = JUndefined"
  by code_simp+


theorem quotes_contract_witness:
  "quotes_B None = \<lparr>status = 400, json = Message ''Mood is required''\<rparr> \<and>
   quotes_B (Some ''HAPPY'') = quotes_B (Some ''happy'') \<and>
   status (quotes_B (Some ''HAPPY'')) = 200 \<and>
   map (\<lambda>q. map_of q ''_id'') (body_quotes (json (quotes_B (Some ''HAPPY'')))) =
     map (\<lambda>i. Some (units i)) [''1'', ''2'', ''3'', ''4'', ''5'', ''6''] \<and>
   quotes_B (Some ''Bored'') = \<lparr>status = 200, json = QuoteList []\<rparr> \<and>
   quotes_A provider0 (Some ''Bored'') = \<lparr>status = 404, json = Message ''No quotes found''\<rparr> \<and>
   status (quotes_A provider0 (Some ''HAPPY'')) = 200"
proof -
  note bored = quotes_contract [where mood = None and fetch = provider0 and m = "''Bored''"
      and a = "[]" and b = "[]"]
  note happy = quotes_contract [where mood = None and fetch = provider0 and m = "''HAPPY''"
      and a = "[]" and b = "[]"]
  have a: "quotes_B None = \<lparr>status = 400, json = Message ''Mood is required''\<rparr>"
    using bored [THEN conjunct1] by simp
  have n: "''Bored'' \<noteq> []" "''HAPPY'' \<noteq> []" by simp_all
  have p: "prototype_get (toLowerCase ''Bored'') = JUndefined"
    "prototype_get (toLowerCase ''HAPPY'') = JUndefined"
    by (simp_all add: lower_examples proto_examples)
  note bored2 = bored [THEN conjunct2, THEN conjunct1, THEN mp, OF n(1)]
  note happy2 = happy [THEN conjunct2, THEN conjunct1, THEN mp, OF n(2)]
  note boredB = bored2 [THEN conjunct2, THEN conjunct1, THEN mp, OF p(1)]
  note happyB = happy2 [THEN conjunct2, THEN conjunct1, THEN mp, OF p(2)]
  have b: "quotes_B (Some ''HAPPY'') = quotes_B (Some ''happy'')"
    using happy2 [THEN conjunct1, THEN spec, of "''happy''"] by (simp add: lower_examples)
  have "map (\<lambda>q. map_of q ''_id'')
          (case map_of staticQuotes ''bored'' of None \<Rightarrow> [] | Some qs \<Rightarrow> qs) = []"
    using boredB [THEN conjunct2, THEN conjunct2, THEN conjunct1] by (simp add: lower_examples)
  then have "(case map_of staticQuotes ''bored'' of None \<Rightarrow> [] | Some qs \<Rightarrow> qs) = []" by simp
  then have c: "quotes_B (Some ''Bored'') = \<lparr>status = 200, json = QuoteList []\<rparr>"
    using boredB [THEN conjunct1] by (simp add: lower_examples)
  have h: "status (quotes_B (Some ''HAPPY'')) = 200"
    using happyB [THEN conjunct1] by simp
  have i: "map (\<lambda>q. map_of q ''_id'') (body_quotes (json (quotes_B (Some ''HAPPY'')))) =
     map (\<lambda>i. Some (units i)) [''1'', ''2'', ''3'', ''4'', ''5'', ''6'']"
    using happyB [THEN conjunct2, THEN conjunct2, THEN conjunct1]
    unfolding happyB [THEN conjunct1] by (simp add: lower_examples)
  have d: "quotes_A provider0 (Some ''Bored'') = \<lparr>status = 404, json = Message ''No quotes found''\<rparr>"
    using boredB [THEN conjunct2, THEN conjunct2, THEN conjunct2]
    by (simp add: lower_examples provider0_def)
  have e: "status (quotes_A provider0 (Some ''HAPPY'')) = 200"
    using happyB [THEN conjunct2, THEN conjunct2, THEN conjunct2]
    by (simp add: lower_examples provider0_def)
  from a b h i c d e show ?thesis by (intro conjI)
qed

lemma constructor_lookup:
  "toLowerCase ''constructor'' = ''constructor''"
  "prototype_get ''constructor'' = JFunction ''Object''"
  by code_simp+

lemma constructor_not_own: "map_of staticQuotes ''constructor'' = None"
  by (simp add: staticQuotes_def)

lemma sad_rejected: "status (quotes_A provider0 (Some ''sad'')) = 500"
  by code_simp

text \<open>
  C9, as the claim states it, fails: the objects of variant B have the key \<open>_id\<close> and no
  key \<open>id\<close>; variant A answers 500, neither 200 nor 404, when the provider cannot be
  reached; and variant B answers the unknown mood \<open>constructor\<close> with the inherited
  function, not with the empty list.
\<close>

theorem quotes_counterexample:
  "map fst (hd (body_quotes (json (quotes_B (Some ''happy''))))) = [''_id'', ''content'', ''author''] \<and>
   map_of (hd (body_quotes (json (quotes_B (Some ''happy''))))) ''id'' = None \<and>
   status (quotes_A provider0 (Some ''sad'')) = 500 \<and>
   quotes_B (Some ''constructor'') = \<lparr>status = 200, json = Member (JFunction ''Object'')\<rparr>"
proof -
  have "map fst (hd (body_quotes (json (quotes_B (Some ''happy''))))) = [''_id'', ''content'', ''author'']"
    by (simp add: quotes_B_def lower_examples staticQuotes_def quote_object_def)
  moreover have "map_of (hd (body_quotes (json (quotes_B (Some ''happy''))))) ''id'' = None"
    by (simp add: quotes_B_def lower_examples staticQuotes_def quote_object_def)
  moreover have "quotes_B (Some ''constructor'') = \<lparr>status = 200, json = Member (JFunction ''Object'')\<rparr>"
    by (simp add: quotes_B_def constructor_lookup constructor_not_own)
  ultimately show ?thesis using sad_rejected by (intro conjI)
qed

end
